theory Spec2Isabelle
  imports Main "HOL-Library.Word"
begin

unbundle bit_operations_syntax

text \<open>
  A shallow embedding of parts of a small AArch64 kernel: the round-robin scheduler,
  the kernel heap, the physical page allocator, the page-table entry flags, the
  VirtIO block driver's request protocol, the window compositor and the write system
  call.  Every definition follows one C function or macro of the sources and keeps
  its name where the name is free in HOL.  C \<open>int\<close> values are modelled as
  \<open>int\<close>, with the 32-bit wrap-around written out where a result depends on it;
  \<open>uint64_t\<close>, \<open>uint32_t\<close>, \<open>uint16_t\<close> and \<open>uint8_t\<close> are words.
  Pointers are 64-bit words, \<open>0\<close> is \<open>NULL\<close>.
\<close>

type_synonym addr = "64 word"
type_synonym u64 = "64 word"
type_synonym u32 = "32 word"
type_synonym u16 = "16 word"
type_synonym u8 = "8 word"

chapter \<open>The embedding of the kernel\<close>

section \<open>Machine state shared by the subsystems\<close>

text \<open>
  The kernel log.  \<open>pr_err\<close>, \<open>pr_warn\<close> and \<open>pr_info\<close> print a message at a
  level; a message is kept as a constructor with the values it prints instead of the
  formatted text.  \<open>printk("%c", c)\<close>, the console path of the write system call, is
  \<open>(RAW, Putc c)\<close>.
\<close>

datatype level = ERR | WARN | INFO | RAW

datatype msg =
    PmmFreeReserved u64
  | KmallocInitFailed
  | KmallocInitialized addr
  | KmallocOutOfMemory
  | KfreeInvalidBlock addr u32
  | CompositorMaxWindows
  | CompositorAllocFailed
  | CompositorCreated "u8 list" int int int int
  | CompositorDrawDenied int int int
  | VirtioBlkFailed u8
  | Putc u8

text \<open>
  The interrupt mask bits of \<open>PSTATE\<close>, in the layout of the immediate of
  \<open>msr daifset\<close> and \<open>msr daifclr\<close>: bit 3 is D, bit 2 is A, bit 1 is I (IRQ), bit 0
  is F.  Interrupts are masked when the I bit is set.
\<close>

record kbase =
  klog :: "(level \<times> msg) list"
  daif :: "4 word"

definition printk :: "level \<Rightarrow> msg \<Rightarrow> 'a kbase_scheme \<Rightarrow> 'a kbase_scheme" where
  "printk l m s = s\<lparr>klog := klog s @ [(l, m)]\<rparr>"

text \<open>\<open>local_irq_enable\<close> is \<open>msr daifclr, #2\<close>; \<open>local_irq_disable\<close> is
  \<open>msr daifset, #2\<close>.\<close>

definition local_irq_enable :: "'a kbase_scheme \<Rightarrow> 'a kbase_scheme" where
  "local_irq_enable s = s\<lparr>daif := daif s AND NOT 2\<rparr>"

definition local_irq_disable :: "'a kbase_scheme \<Rightarrow> 'a kbase_scheme" where
  "local_irq_disable s = s\<lparr>daif := daif s OR 2\<rparr>"

definition irqs_masked :: "'a kbase_scheme \<Rightarrow> bool" where
  "irqs_masked s \<longleftrightarrow> bit (daif s) 1"

text \<open>
  Arithmetic on C \<open>int\<close>: \<open>s32\<close> is the value a 32-bit register holds after an
  operation whose exact result is \<open>v\<close> (overflow of \<open>int\<close> is undefined in C; the
  AArch64 instructions wrap around).  \<open>int32 v\<close> says that \<open>v\<close> is a value of the type.
  \<open>c_div\<close> is C's division, which truncates towards zero.
\<close>

definition s32 :: "int \<Rightarrow> int" where
  "s32 v = (v + 2 ^ 31) mod 2 ^ 32 - 2 ^ 31"

definition int32 :: "int \<Rightarrow> bool" where
  "int32 v \<longleftrightarrow> - (2 ^ 31) \<le> v \<and> v < 2 ^ 31"

definition c_div :: "int \<Rightarrow> int \<Rightarrow> int" where
  "c_div a b = sgn a * sgn b * (\<bar>a\<bar> div \<bar>b\<bar>)"

section \<open>Process table and scheduler (sched.h, the scheduler source)\<close>

text \<open>
  \<open>struct process\<close>.  The field \<open>context\<close> is called \<open>pcontext\<close> here
  (the source's name is a keyword of Isabelle); the name and the list link, which the
  scheduler never reads, are left out.
\<close>

record process =
  pid :: u32
  page_table :: addr
  kernel_stack :: addr
  pcontext :: addr
  user_entry :: addr
  user_stack :: addr
  state :: int

definition PROC_UNUSED :: int where "PROC_UNUSED = 0"
definition PROC_CREATED :: int where "PROC_CREATED = 1"
definition PROC_RUNNING :: int where "PROC_RUNNING = 2"
definition PROC_ZOMBIE :: int where "PROC_ZOMBIE = 3"
definition MAX_PROCESSES :: nat where "MAX_PROCESSES = 16"

text \<open>
  The scheduler's globals: \<open>process_pool\<close>, \<open>process_count\<close>, \<open>current_pid\<close>
  (an index into the pool, \<open>-1\<close> at boot) and \<open>current_process\<close>.  \<open>procs\<close> is
  the memory holding the process structures, by address; \<open>ttbr0_el1\<close> is the
  translation-table base register that \<open>schedule\<close> writes.
\<close>

record sched_state =
  procs :: "addr \<Rightarrow> process"
  process_pool :: "addr list"
  process_count :: int
  current_pid :: int
  current_process :: addr
  ttbr0_el1 :: addr

text \<open>C's \<open>%\<close> on \<open>int\<close>: the quotient is truncated towards zero.\<close>

definition c_rem :: "int \<Rightarrow> int \<Rightarrow> int" where
  "c_rem a b = a - b * (sgn a * sgn b * (\<bar>a\<bar> div \<bar>b\<bar>))"

definition virt_to_phys :: "addr \<Rightarrow> addr" where
  "virt_to_phys virt = virt"

text \<open>
  The first step of \<open>schedule\<close>: \<open>if (current_process) { current_process->context =
  regs; current_process->state = PROC_RUNNING; }\<close>.
\<close>

definition save_current :: "addr \<Rightarrow> sched_state \<Rightarrow> sched_state" where
  "save_current regs s =
     (if current_process s \<noteq> 0
      then s\<lparr>procs := (procs s)(current_process s :=
               (procs s (current_process s))\<lparr>pcontext := regs, state := PROC_RUNNING\<rparr>)\<rparr>
      else s)"

text \<open>
  \<open>schedule(regs)\<close> returns the frame to resume and the new state.  The sum
  \<open>current_pid + 1\<close> is an \<open>int\<close> and wraps around.  The result is \<open>None\<close> where
  the C code faults: when the index \<open>(current_pid + 1) % process_count\<close> lies outside
  the pool array, and when the slot read holds \<open>NULL\<close>, whose \<open>page_table\<close> and
  \<open>context\<close> are then read through the null pointer.
\<close>

definition schedule :: "addr \<Rightarrow> sched_state \<Rightarrow> (addr \<times> sched_state) option" where
  "schedule regs s =
     (if process_count s = 0 then Some (regs, s)
      else
        let s1 = save_current regs s;
            cp = c_rem (s32 (current_pid s1 + 1)) (process_count s1)
        in if cp < 0 \<or> int (length (process_pool s1)) \<le> cp then None
           else
             let nxt = process_pool s1 ! nat cp
             in if nxt = 0 then None
                else
                  let s2 = s1\<lparr>current_pid := cp, current_process := nxt,
                             ttbr0_el1 := virt_to_phys (page_table (procs s1 nxt))\<rparr>
                  in Some (pcontext (procs s2 nxt), s2))"

text \<open>
  A run of timer ticks: each tick enters \<open>schedule\<close> with the frame saved by that
  interrupt, and the process selected by each tick is collected.
\<close>

fun ticks :: "addr list \<Rightarrow> sched_state \<Rightarrow> (addr list \<times> sched_state) option" where
  "ticks [] s = Some ([], s)"
| "ticks (regs # rs) s =
     (case schedule regs s of
        None \<Rightarrow> None
      | Some (ctx, s1) \<Rightarrow>
          (case ticks rs s1 of
             None \<Rightarrow> None
           | Some (sel, s2) \<Rightarrow> Some (current_process s1 # sel, s2)))"

text \<open>
  What the process table looks like between ticks: the pool array has its sixteen
  slots, at least one and at most sixteen of them are populated, each populated slot
  points at a process structure (none is \<open>NULL\<close>), and the current index is \<open>-1\<close>
  (nothing started yet) or the index of a populated slot.
\<close>

definition wf_sched :: "sched_state \<Rightarrow> bool" where
  "wf_sched s \<longleftrightarrow> length (process_pool s) = MAX_PROCESSES \<and> 0 < process_count s \<and>
     process_count s \<le> int MAX_PROCESSES \<and> - 1 \<le> current_pid s \<and>
     current_pid s < process_count s \<and>
     0 \<notin> set (take (nat (process_count s)) (process_pool s))"

text \<open>A table with three processes, the first of them running, for concrete runs.\<close>

definition proc0 :: process where
  "proc0 = \<lparr>pid = 0, page_table = 0, kernel_stack = 0, pcontext = 0, user_entry = 0,
     user_stack = 0, state = PROC_UNUSED\<rparr>"

definition sched3 :: sched_state where
  "sched3 = \<lparr>procs = (\<lambda>a. proc0)
       (0x40100000 := proc0\<lparr>pid := 1, page_table := 0x40101000, pcontext := 0x40102EE0, state := PROC_RUNNING\<rparr>,
        0x40200000 := proc0\<lparr>pid := 2, page_table := 0x40201000, pcontext := 0x40202EE0, state := PROC_CREATED\<rparr>,
        0x40300000 := proc0\<lparr>pid := 3, page_table := 0x40301000, pcontext := 0x40302EE0, state := PROC_CREATED\<rparr>),
     process_pool = [0x40100000, 0x40200000, 0x40300000, 0, 0, 0, 0, 0, 0, 0, 0, 0, 0, 0, 0, 0],
     process_count = 3, current_pid = 0, current_process = 0x40100000, ttbr0_el1 = 0x40101000\<rparr>"

section \<open>Physical page allocator (pmm.h, pmm.c)\<close>

definition PAGE_SHIFT :: nat where "PAGE_SHIFT = 12"
definition PAGE_SIZE :: u64 where "PAGE_SIZE = push_bit PAGE_SHIFT 1"
definition MEMORY_BASE :: u64 where "MEMORY_BASE = 0x40000000"
definition DMA_ZONE_END :: u64 where "DMA_ZONE_END = 0x41000000"
definition MAX_MEMORY :: u64 where "MAX_MEMORY = push_bit 30 1"
definition MAX_PAGES :: u64 where "MAX_PAGES = MAX_MEMORY div PAGE_SIZE"
definition ZONE_DMA :: nat where "ZONE_DMA = 0"
definition ZONE_NORMAL :: nat where "ZONE_NORMAL = 1"
definition PG_RESERVED :: u32 where "PG_RESERVED = 1"
definition PG_KERNEL :: u32 where "PG_KERNEL = 2"

definition phys_to_pfn :: "u64 \<Rightarrow> u64" where
  "phys_to_pfn phys = drop_bit PAGE_SHIFT phys"

definition pfn_to_phys :: "u64 \<Rightarrow> u64" where
  "pfn_to_phys pfn = push_bit PAGE_SHIFT pfn"

text \<open>
  \<open>struct page\<close> (its flags and reference count; the list link and the private
  pointer are never touched by the allocator after \<open>pmm_init\<close>) and \<open>struct zone\<close>.
  A bitmap is an array of 64-bit words.  The zone's spin lock is not modelled: on the
  single hart it is free whenever the allocator is entered and it is released on every
  path; the interrupt mask that \<open>spin_lock_irqsave\<close> saves and
  \<open>spin_unlock_irqrestore\<close> restores is.  The contents of the page frames
  themselves (which the allocator zeroes) are outside the model.
\<close>

record page =
  pg_flags :: u32
  refcount :: u32

record zone =
  start_pfn :: u64
  end_pfn :: u64
  z_free_pages :: u64
  bitmap :: "nat \<Rightarrow> u64"

record pmm_state = kbase +
  page_array :: "nat \<Rightarrow> page"
  zones :: "nat \<Rightarrow> zone"
  total_pages :: u64
  free_pages :: u64

definition bitmap_set :: "(nat \<Rightarrow> u64) \<Rightarrow> u64 \<Rightarrow> (nat \<Rightarrow> u64)" where
  "bitmap_set bm b =
     bm(unat (b div 64) := bm (unat (b div 64)) OR push_bit (unat (b mod 64)) 1)"

definition bitmap_clear :: "(nat \<Rightarrow> u64) \<Rightarrow> u64 \<Rightarrow> (nat \<Rightarrow> u64)" where
  "bitmap_clear bm b =
     bm(unat (b div 64) := bm (unat (b div 64)) AND NOT (push_bit (unat (b mod 64)) 1))"

definition bitmap_test :: "(nat \<Rightarrow> u64) \<Rightarrow> u64 \<Rightarrow> bool" where
  "bitmap_test bm b \<longleftrightarrow> bm (unat (b div 64)) AND push_bit (unat (b mod 64)) 1 \<noteq> 0"

text \<open>
  \<open>bitmap_find_free(bitmap, start, end)\<close>: the loop \<open>for (i = start; i < end; i++)\<close>,
  entered at \<open>i\<close>.  The result is the \<open>int64_t\<close> the C function returns, \<open>-1\<close> when
  no bit is clear.
\<close>

function bitmap_find_free :: "(nat \<Rightarrow> u64) \<Rightarrow> u64 \<Rightarrow> u64 \<Rightarrow> u64" where
  "bitmap_find_free bm i e =
     (if i < e
      then (if \<not> bitmap_test bm i then i else bitmap_find_free bm (i + 1) e)
      else - 1)"
  by pat_completeness auto
termination
proof (relation "measure (\<lambda>(bm, i, e). unat e - unat i)")
  show "wf (measure (\<lambda>(bm, i, e). unat e - unat i))" by simp
next
  fix bm :: "nat \<Rightarrow> u64" and i e :: u64
  assume "i < e"
  then have "unat i < unat e" by (simp add: word_less_nat_alt)
  moreover have "unat e < 2 ^ LENGTH(64)" by (rule unsigned_less)
  ultimately have "unat i + unat (1 :: u64) < 2 ^ LENGTH(64)" by simp
  then have "unat (i + 1) = unat i + unat (1 :: u64)" by (simp only: unat_add_lem)
  with \<open>unat i < unat e\<close>
  show "((bm, i + 1, e), (bm, i, e)) \<in> measure (\<lambda>(bm, i, e). unat e - unat i)"
    by simp
qed

text \<open>
  \<open>bitmap_find_contiguous(bitmap, start, end, count)\<close>: the loop entered at \<open>i\<close>
  with the locals \<open>found\<close> and \<open>first\<close>.
\<close>

function find_contiguous_loop ::
  "(nat \<Rightarrow> u64) \<Rightarrow> u64 \<Rightarrow> u64 \<Rightarrow> u64 \<Rightarrow> u64 \<Rightarrow> u64 \<Rightarrow> u64" where
  "find_contiguous_loop bm e count i found first =
     (if i < e
      then (if \<not> bitmap_test bm i
            then (if found + 1 = count
                  then (if found = 0 then i else first)
                  else find_contiguous_loop bm e count (i + 1) (found + 1)
                         (if found = 0 then i else first))
            else find_contiguous_loop bm e count (i + 1) 0 first)
      else - 1)"
  by pat_completeness auto
termination
proof (relation "measure (\<lambda>(bm, e, count, i, found, first). unat e - unat i)")
  show "wf (measure (\<lambda>(bm, e, count, i, found, first). unat e - unat i))" by simp
next
  fix bm :: "nat \<Rightarrow> u64" and e count i found first :: u64
  assume "i < e"
  then have l: "unat i < unat e" by (simp add: word_less_nat_alt)
  moreover have "unat e < 2 ^ LENGTH(64)" by (rule unsigned_less)
  ultimately have "unat i + unat (1 :: u64) < 2 ^ LENGTH(64)" by simp
  then have "unat (i + 1) = unat i + unat (1 :: u64)" by (simp only: unat_add_lem)
  with l show "((bm, e, count, i + 1, found + 1, if found = 0 then i else first),
       (bm, e, count, i, found, first))
      \<in> measure (\<lambda>(bm, e, count, i, found, first). unat e - unat i)"
    by simp
next
  fix bm :: "nat \<Rightarrow> u64" and e count i found first :: u64
  assume "i < e"
  then have l: "unat i < unat e" by (simp add: word_less_nat_alt)
  moreover have "unat e < 2 ^ LENGTH(64)" by (rule unsigned_less)
  ultimately have "unat i + unat (1 :: u64) < 2 ^ LENGTH(64)" by simp
  then have "unat (i + 1) = unat i + unat (1 :: u64)" by (simp only: unat_add_lem)
  with l show "((bm, e, count, i + 1, 0, first), (bm, e, count, i, found, first))
      \<in> measure (\<lambda>(bm, e, count, i, found, first). unat e - unat i)"
    by simp
qed

definition bitmap_find_contiguous :: "(nat \<Rightarrow> u64) \<Rightarrow> u64 \<Rightarrow> u64 \<Rightarrow> u64 \<Rightarrow> u64" where
  "bitmap_find_contiguous bm start e count = find_contiguous_loop bm e count start 0 0"

text \<open>
  \<open>zone_alloc_page(&zones[zi])\<close>.  The result is the address returned (\<open>0\<close> for
  \<open>NULL\<close>) and the new state.
\<close>

definition zone_alloc_page :: "nat \<Rightarrow> 'a pmm_state_scheme \<Rightarrow> addr \<times> 'a pmm_state_scheme" where
  "zone_alloc_page zi s =
     (let z = zones s zi;
          flags = daif s;
          s1 = s\<lparr>daif := daif s OR 3\<rparr>;
          pfn = bitmap_find_free (bitmap z) 0 (end_pfn z - start_pfn z)
      in if pfn <s 0 then (0, s1\<lparr>daif := flags\<rparr>)
         else
           let z' = z\<lparr>bitmap := bitmap_set (bitmap z) pfn, z_free_pages := z_free_pages z - 1\<rparr>;
               s2 = s1\<lparr>zones := (zones s1)(zi := z'), daif := flags\<rparr>;
               abs_pfn = start_pfn z + pfn;
               s3 = s2\<lparr>page_array := (page_array s2)
                       (unat abs_pfn := (page_array s2 (unat abs_pfn))\<lparr>pg_flags := 0, refcount := 1\<rparr>)\<rparr>;
               a = MEMORY_BASE + pfn_to_phys abs_pfn
           in (a, s3\<lparr>free_pages := free_pages s3 - 1\<rparr>))"

definition pmm_alloc_page :: "'a pmm_state_scheme \<Rightarrow> addr \<times> 'a pmm_state_scheme" where
  "pmm_alloc_page s =
     (let (page, s1) = zone_alloc_page ZONE_NORMAL s
      in if page = 0 then zone_alloc_page ZONE_DMA s1 else (page, s1))"

definition pmm_alloc_pages :: "u64 \<Rightarrow> 'a pmm_state_scheme \<Rightarrow> addr \<times> 'a pmm_state_scheme" where
  "pmm_alloc_pages count s =
     (if count = 0 then (0, s)
      else if count = 1 then pmm_alloc_page s
      else
        let z = zones s ZONE_NORMAL;
            flags = daif s;
            s1 = s\<lparr>daif := daif s OR 3\<rparr>;
            pfn = bitmap_find_contiguous (bitmap z) 0 (end_pfn z - start_pfn z) count
        in if pfn <s 0 then (0, s1\<lparr>daif := flags\<rparr>)
           else
             let bm = fold (\<lambda>i b. bitmap_set b (pfn + of_nat i)) [0..<unat count] (bitmap z);
                 z' = z\<lparr>bitmap := bm, z_free_pages := z_free_pages z - count\<rparr>;
                 s2 = s1\<lparr>zones := (zones s1)(ZONE_NORMAL := z'), daif := flags\<rparr>;
                 abs_pfn = start_pfn z + pfn;
                 pa = fold (\<lambda>i p. p(unat (abs_pfn + of_nat i) :=
                             (p (unat (abs_pfn + of_nat i)))\<lparr>pg_flags := 0, refcount := 1\<rparr>))
                        [0..<unat count] (page_array s2);
                 s3 = s2\<lparr>page_array := pa\<rparr>;
                 a = MEMORY_BASE + pfn_to_phys abs_pfn
             in (a, s3\<lparr>free_pages := free_pages s3 - count\<rparr>))"

definition pmm_free_page :: "addr \<Rightarrow> 'a pmm_state_scheme \<Rightarrow> 'a pmm_state_scheme" where
  "pmm_free_page page s =
     (if page = 0 then s
      else if page < MEMORY_BASE then s
      else
        let pfn = phys_to_pfn (page - MEMORY_BASE)
        in if total_pages s \<le> pfn then s
           else
             let pg = page_array s (unat pfn)
             in if pg_flags pg AND PG_RESERVED \<noteq> 0
                then printk WARN (PmmFreeReserved page) s
                else
                  let rc = refcount pg - 1;
                      s1 = s\<lparr>page_array := (page_array s)(unat pfn := pg\<lparr>refcount := rc\<rparr>)\<rparr>
                  in if 0 < rc then s1
                     else
                       let dma_end = end_pfn (zones s1 ZONE_DMA);
                           zi = (if pfn < dma_end then ZONE_DMA else ZONE_NORMAL);
                           zone_pfn = (if pfn < dma_end then pfn else pfn - dma_end);
                           z = zones s1 zi;
                           flags = daif s1;
                           s2 = s1\<lparr>daif := daif s1 OR 3\<rparr>;
                           z' = z\<lparr>bitmap := bitmap_clear (bitmap z) zone_pfn,
                                  z_free_pages := z_free_pages z + 1\<rparr>;
                           s3 = s2\<lparr>zones := (zones s2)(zi := z'), daif := flags\<rparr>
                       in s3\<lparr>free_pages := free_pages s3 + 1\<rparr>)"

definition pmm_free_pages :: "addr \<Rightarrow> u64 \<Rightarrow> 'a pmm_state_scheme \<Rightarrow> 'a pmm_state_scheme" where
  "pmm_free_pages page count s =
     fold (\<lambda>i. pmm_free_page (page + of_nat i * PAGE_SIZE)) [0..<unat count] s"

definition pmm_alloc_aligned ::
  "u64 \<Rightarrow> u64 \<Rightarrow> 'a pmm_state_scheme \<Rightarrow> addr \<times> 'a pmm_state_scheme" where
  "pmm_alloc_aligned sz align s =
     (let pages = (sz + PAGE_SIZE - 1) div PAGE_SIZE;
          align_pages = (align + PAGE_SIZE - 1) div PAGE_SIZE
      in if align_pages \<le> 1 then pmm_alloc_pages pages s
         else
           let total = pages + align_pages - 1;
               (mem, s1) = pmm_alloc_pages total s
           in if mem = 0 then (0, s1)
              else
                let aligned = (mem + align - 1) AND NOT (align - 1);
                    skip = (aligned - mem) div PAGE_SIZE;
                    s2 = (if 0 < skip then pmm_free_pages mem skip s1 else s1);
                    unused = total - skip - pages;
                    s3 = (if 0 < unused
                          then pmm_free_pages (aligned + pages * PAGE_SIZE) unused s2 else s2)
                in (aligned, s3))"

section \<open>Kernel heap (kmalloc.c)\<close>

definition HEAP_SIZE :: u64 where "HEAP_SIZE = 8 * 1024 * 1024"
definition BLOCK_MAGIC :: u32 where "BLOCK_MAGIC = 0xDEADBEEF"
definition BLOCK_FREED :: u32 where "BLOCK_FREED = 0xFEEEFEEE"

text \<open>
  \<open>sizeof(struct block_header)\<close>: two 32-bit words, a pointer and a 32-bit word make
  20 bytes, which the attribute \<open>aligned(16)\<close> rounds up to 32.
\<close>

definition HDR_SIZE :: u64 where "HDR_SIZE = 32"

text \<open>
  \<open>struct block_header\<close>; the fields \<open>size\<close> and \<open>next\<close> are \<open>bsize\<close> and
  \<open>bnext\<close> here, and the field \<open>reserved\<close>, which no function touches, is left out.
  \<open>hdr\<close> is the memory holding the block headers, by the address of the header.
\<close>

record block_header =
  magic :: u32
  bsize :: u32
  bnext :: addr

record heap_state = pmm_state +
  heap_base :: addr
  heap_end :: addr
  heap_ptr :: addr
  free_list :: addr
  heap_initialized :: int
  hdr :: "addr \<Rightarrow> block_header"

definition kmalloc_init :: "'a heap_state_scheme \<Rightarrow> 'a heap_state_scheme" where
  "kmalloc_init s =
     (if heap_initialized s \<noteq> 0 then s
      else
        let pages = (HEAP_SIZE + 4095) div 4096;
            (base, s1) = pmm_alloc_pages pages s;
            s2 = s1\<lparr>heap_base := base\<rparr>
        in if base = 0 then printk ERR KmallocInitFailed s2
           else printk INFO (KmallocInitialized base)
                  (s2\<lparr>heap_end := base + HEAP_SIZE, heap_ptr := base, free_list := 0,
                      heap_initialized := 1\<rparr>))"

text \<open>
  The free-list walk of \<open>kmalloc\<close>: \<open>pp\<close> points at the list head (\<open>None\<close>) or at
  the \<open>next\<close> field of the block \<open>b\<close> (\<open>Some b\<close>).  The walk returns the payload
  address of the first block that is large enough, unlinked and marked allocated, or
  \<open>0\<close> at the end of the list.  On a cyclic list the C loop does not end, and the
  function has no value.
\<close>

partial_function (option) free_list_walk ::
  "u64 \<Rightarrow> addr option \<Rightarrow> 'a heap_state_scheme \<Rightarrow> (addr \<times> 'a heap_state_scheme) option" where
  "free_list_walk need pp s =
     (if (case pp of None \<Rightarrow> free_list s | Some b \<Rightarrow> bnext (hdr s b)) = 0 then Some (0, s)
      else if need \<le> ucast (bsize (hdr s (case pp of None \<Rightarrow> free_list s | Some b \<Rightarrow> bnext (hdr s b))))
      then Some
        ((case pp of None \<Rightarrow> free_list s | Some b \<Rightarrow> bnext (hdr s b)) + HDR_SIZE,
         (let block = (case pp of None \<Rightarrow> free_list s | Some b \<Rightarrow> bnext (hdr s b));
              nxt = bnext (hdr s block);
              s1 = (case pp of None \<Rightarrow> s\<lparr>free_list := nxt\<rparr>
                    | Some b \<Rightarrow> s\<lparr>hdr := (hdr s)(b := (hdr s b)\<lparr>bnext := nxt\<rparr>)\<rparr>)
          in s1\<lparr>hdr := (hdr s1)(block := (hdr s1 block)\<lparr>magic := BLOCK_MAGIC, bnext := 0\<rparr>)\<rparr>))
      else free_list_walk need
             (Some (case pp of None \<Rightarrow> free_list s | Some b \<Rightarrow> bnext (hdr s b))) s)"

text \<open>\<open>kmalloc(size)\<close>: the address returned (\<open>0\<close> for \<open>NULL\<close>) and the new state.\<close>

definition kmalloc :: "u64 \<Rightarrow> 'a heap_state_scheme \<Rightarrow> (addr \<times> 'a heap_state_scheme) option" where
  "kmalloc sz s =
     (let s0 = (if heap_initialized s = 0 then kmalloc_init s else s)
      in if sz = 0 then Some (0, s0)
         else
           let sz' = (sz + 15) AND NOT 15;
               total = sz' + HDR_SIZE
           in case free_list_walk total None s0 of
                None \<Rightarrow> None
              | Some (p, s1) \<Rightarrow>
                  if p \<noteq> 0 then Some (p, s1)
                  else if heap_end s1 < heap_ptr s1 + total
                  then Some (0, printk ERR KmallocOutOfMemory s1)
                  else
                    let block = heap_ptr s1;
                        s2 = s1\<lparr>hdr := (hdr s1)(block :=
                               (hdr s1 block)\<lparr>magic := BLOCK_MAGIC, bsize := ucast total, bnext := 0\<rparr>)\<rparr>
                    in Some (block + HDR_SIZE, s2\<lparr>heap_ptr := heap_ptr s2 + total\<rparr>))"

definition kfree :: "addr \<Rightarrow> 'a heap_state_scheme \<Rightarrow> 'a heap_state_scheme" where
  "kfree ptr s =
     (if ptr = 0 then s
      else
        let block = ptr - HDR_SIZE
        in if magic (hdr s block) \<noteq> BLOCK_MAGIC
           then printk ERR (KfreeInvalidBlock ptr (magic (hdr s block))) s
           else s\<lparr>hdr := (hdr s)(block := (hdr s block)\<lparr>magic := BLOCK_FREED, bnext := free_list s\<rparr>),
                  free_list := block\<rparr>)"

text \<open>A heap with one live block of 64 payload bytes at \<open>0x40500020\<close>, for concrete
  runs; the page allocator behind it has nothing allocated.\<close>

definition zone0 :: zone where
  "zone0 = \<lparr>start_pfn = 0, end_pfn = 0, z_free_pages = 0, bitmap = (\<lambda>i. 0)\<rparr>"

definition pmm_boot :: pmm_state where
  "pmm_boot = \<lparr>klog = [], daif = 0,
     page_array = (\<lambda>i. \<lparr>pg_flags = 0, refcount = 0\<rparr>),
     zones = (\<lambda>i. zone0)(ZONE_DMA := zone0\<lparr>end_pfn := 4096, z_free_pages := 4096\<rparr>,
                          ZONE_NORMAL := zone0\<lparr>start_pfn := 4096, end_pfn := 262144,
                                                z_free_pages := 258048\<rparr>),
     total_pages = 262144, free_pages = 262144\<rparr>"

definition heap1 :: heap_state where
  "heap1 = \<lparr>klog = [], daif = 0,
     page_array = page_array pmm_boot, zones = zones pmm_boot,
     total_pages = total_pages pmm_boot, free_pages = free_pages pmm_boot,
     heap_base = 0x40500000, heap_end = 0x40D00000, heap_ptr = 0x40500060, free_list = 0,
     heap_initialized = 1,
     hdr = (\<lambda>a. \<lparr>magic = 0, bsize = 0, bnext = 0\<rparr>)
             (0x40500000 := \<lparr>magic = BLOCK_MAGIC, bsize = 96, bnext = 0\<rparr>)\<rparr>"

section \<open>Page-table entry flags (vmm.h) and the leaves the kernel installs\<close>

definition PTE_VALID :: u64 where "PTE_VALID = push_bit 0 1"
definition PTE_TABLE :: u64 where "PTE_TABLE = push_bit 1 1"
definition PTE_PAGE :: u64 where "PTE_PAGE = push_bit 1 1"
definition PTE_ATTR_NORMAL :: u64 where "PTE_ATTR_NORMAL = 0"
definition PTE_ATTR_DEVICE :: u64 where "PTE_ATTR_DEVICE = 1"
definition PTE_ATTR_INDX :: "u64 \<Rightarrow> u64" where "PTE_ATTR_INDX x = push_bit 2 x"
definition PTE_RW :: u64 where "PTE_RW = push_bit 6 0"
definition PTE_RO :: u64 where "PTE_RO = push_bit 6 2"
definition PTE_USER :: u64 where "PTE_USER = push_bit 6 1"
definition PTE_AP_EL1_RW :: u64 where "PTE_AP_EL1_RW = push_bit 6 0"
definition PTE_AP_EL1_RO :: u64 where "PTE_AP_EL1_RO = push_bit 6 2"
definition PTE_AP_EL0_RW :: u64 where "PTE_AP_EL0_RW = push_bit 6 1"
definition PTE_AP_EL0_RO :: u64 where "PTE_AP_EL0_RO = push_bit 6 3"
definition PTE_INNER_SHARE :: u64 where "PTE_INNER_SHARE = push_bit 8 3"
definition PTE_AF :: u64 where "PTE_AF = push_bit 10 1"
definition PTE_UXN :: u64 where "PTE_UXN = push_bit 54 1"
definition PTE_PXN :: u64 where "PTE_PXN = push_bit 53 1"

definition PAGE_KERNEL :: u64 where
  "PAGE_KERNEL = PTE_VALID OR PTE_PAGE OR PTE_ATTR_INDX PTE_ATTR_NORMAL OR PTE_INNER_SHARE OR
     PTE_AF OR PTE_AP_EL1_RW OR PTE_UXN"

definition PAGE_KERNEL_RO :: u64 where
  "PAGE_KERNEL_RO = PTE_VALID OR PTE_PAGE OR PTE_ATTR_INDX PTE_ATTR_NORMAL OR PTE_INNER_SHARE OR
     PTE_AF OR PTE_AP_EL1_RO OR PTE_UXN"

definition PAGE_KERNEL_EXEC :: u64 where
  "PAGE_KERNEL_EXEC = PTE_VALID OR PTE_PAGE OR PTE_ATTR_INDX PTE_ATTR_NORMAL OR PTE_INNER_SHARE OR
     PTE_AF OR PTE_AP_EL1_RW"

definition PAGE_DEVICE :: u64 where
  "PAGE_DEVICE = PTE_VALID OR PTE_PAGE OR PTE_ATTR_INDX PTE_ATTR_DEVICE OR PTE_INNER_SHARE OR
     PTE_AF OR PTE_AP_EL1_RW OR PTE_UXN OR PTE_PXN"

definition PAGE_USER :: u64 where
  "PAGE_USER = PTE_VALID OR PTE_PAGE OR PTE_ATTR_INDX PTE_ATTR_NORMAL OR PTE_INNER_SHARE OR
     PTE_AF OR PTE_AP_EL0_RW OR PTE_PXN"

text \<open>
  The entry \<open>vmm_map_page\<close> stores in the level-3 table:
  \<open>pt[PT_INDEX(virt)] = phys | flags\<close>.
\<close>

definition leaf_pte :: "u64 \<Rightarrow> u64 \<Rightarrow> u64" where
  "leaf_pte phys flags = phys OR flags"

text \<open>
  The leaves of the initial kernel map (\<open>vmm_init\<close>): RAM is mapped page by page
  with \<open>PAGE_KERNEL\<close>, the MMIO aperture with \<open>PAGE_DEVICE\<close>, both as identity maps.
\<close>

definition kernel_ram_leaf :: "u64 \<Rightarrow> u64" where
  "kernel_ram_leaf a = leaf_pte a PAGE_KERNEL"

definition kernel_mmio_leaf :: "u64 \<Rightarrow> u64" where
  "kernel_mmio_leaf a = leaf_pte a PAGE_DEVICE"

text \<open>
  The flags \<open>process_load_elf\<close> computes for a \<open>PT_LOAD\<close> segment from its
  \<open>p_flags\<close>.  The header that defines the masks \<open>PF_W\<close> and \<open>PF_X\<close> is not among the
  sources, so the two masks are parameters (in the ELF format they are 2 and 1).
\<close>

definition elf_segment_flags :: "u32 \<Rightarrow> u32 \<Rightarrow> u32 \<Rightarrow> u64" where
  "elf_segment_flags pf_w pf_x p_flags =
     (let flags = PTE_VALID OR PTE_AF OR PTE_INNER_SHARE OR PAGE_USER;
          flags1 = (if p_flags AND pf_w \<noteq> 0 then flags OR PTE_RW else flags OR PTE_RO)
      in if p_flags AND pf_x = 0 then flags1 OR PTE_UXN else flags1)"

definition elf_segment_leaf :: "u32 \<Rightarrow> u32 \<Rightarrow> u32 \<Rightarrow> u64 \<Rightarrow> u64" where
  "elf_segment_leaf pf_w pf_x p_flags paddr = leaf_pte paddr (elf_segment_flags pf_w pf_x p_flags)"

text \<open>The leaves of the user stack: every page is mapped with \<open>PAGE_USER\<close>.\<close>

definition user_stack_leaf :: "u64 \<Rightarrow> u64" where
  "user_stack_leaf paddr = leaf_pte paddr PAGE_USER"

text \<open>
  Reading an entry.  Bit 0 is the valid bit.  The access permission field is bits 7:6;
  as the table in the header says, the kernel (EL1) may write exactly when bit 7 is
  clear, and user mode (EL0) has access when bit 6 is set.  Bit 54 is UXN: user mode
  may execute the page when the bit is clear.
\<close>

definition pte_valid :: "u64 \<Rightarrow> bool" where
  "pte_valid e \<longleftrightarrow> e AND PTE_VALID \<noteq> 0"

definition el1_writable :: "u64 \<Rightarrow> bool" where
  "el1_writable e \<longleftrightarrow> e AND PTE_AP_EL1_RO = 0"

definition pte_uxn :: "u64 \<Rightarrow> bool" where
  "pte_uxn e \<longleftrightarrow> e AND PTE_UXN \<noteq> 0"

text \<open>A frame address as the page allocator returns it: page aligned, below \<open>2^48\<close>.\<close>

definition frame_address :: "u64 \<Rightarrow> bool" where
  "frame_address a \<longleftrightarrow> a AND 0xFFFF000000000FFF = 0"

section \<open>VirtIO block driver: the synchronous request (virtio.h, virtio_blk.c)\<close>

definition VRING_DESC_F_NEXT :: u16 where "VRING_DESC_F_NEXT = 1"
definition VRING_DESC_F_WRITE :: u16 where "VRING_DESC_F_WRITE = 2"
definition VIRTIO_BLK_T_IN :: u32 where "VIRTIO_BLK_T_IN = 0"
definition VIRTIO_BLK_T_OUT :: u32 where "VIRTIO_BLK_T_OUT = 1"
definition VIRTIO_BLK_S_OK :: u8 where "VIRTIO_BLK_S_OK = 0"
definition VIRTIO_MMIO_QUEUE_NOTIFY :: u64 where "VIRTIO_MMIO_QUEUE_NOTIFY = 0x050"

record vring_desc =
  d_addr :: u64
  d_len :: u32
  d_flags :: u16
  d_next :: u16

record virtio_blk_req =
  r_type :: u32
  r_reserved :: u32
  r_sector :: u64

text \<open>
  What the driver does to the memory it shares with the device and to the device's
  registers, in program order.
\<close>

datatype blk_event =
    AvailRingWrite u16 u16
  | Barrier
  | AvailIdxWrite u16
  | MmioWrite u64 u32
  | UsedIdxRead u16
  | StatusRead u8

text \<open>
  The driver's globals (\<open>virtio_blk_base\<close>, \<open>virtio_blk_qsize\<close> and the three ring
  pointers), the rings themselves, the static request header and status byte of
  \<open>virtio_blk_read\<close> (\<open>req\<close>, \<open>status\<close>) and of \<open>virtio_blk_write\<close> (\<open>req_w\<close>,
  \<open>status_w\<close>) with their addresses, and the record of the driver's accesses.
\<close>

record blk_state = kbase +
  virtio_blk_base :: u64
  virtio_blk_qsize :: u32
  desc_ptr :: addr
  avail_ptr :: addr
  used_ptr :: addr
  desc :: "nat \<Rightarrow> vring_desc"
  avail_idx :: u16
  avail_ring :: "nat \<Rightarrow> u16"
  used_idx :: u16
  req :: virtio_blk_req
  req_addr :: addr
  status :: u8
  status_addr :: addr
  req_w :: virtio_blk_req
  req_w_addr :: addr
  status_w :: u8
  status_w_addr :: addr
  trace :: "blk_event list"

text \<open>
  The device runs beside the driver.  It is a parameter of the model, in two parts:
  \<open>on_notify\<close> is what the device does to the shared memory while the store to the
  notify register is carried out, \<open>on_poll\<close> what it does between two reads of
  \<open>used->idx\<close> by the waiting driver.

  The busy-wait \<open>while (used->idx == wait_idx)\<close>.  Its value is \<open>None\<close> when the
  index has not changed after \<open>fuel\<close> further reads.
\<close>

fun busy_wait ::
  "('a blk_state_scheme \<Rightarrow> 'a blk_state_scheme) \<Rightarrow> nat \<Rightarrow> u16 \<Rightarrow> 'a blk_state_scheme
     \<Rightarrow> 'a blk_state_scheme option" where
  "busy_wait on_poll 0 wait_idx s =
     (if used_idx s = wait_idx then None
      else Some (s\<lparr>trace := trace s @ [UsedIdxRead (used_idx s)]\<rparr>))"
| "busy_wait on_poll (Suc fuel) wait_idx s =
     (if used_idx s = wait_idx
      then busy_wait on_poll fuel wait_idx (on_poll (s\<lparr>trace := trace s @ [UsedIdxRead (used_idx s)]\<rparr>))
      else Some (s\<lparr>trace := trace s @ [UsedIdxRead (used_idx s)]\<rparr>))"

text \<open>
  \<open>virtio_blk_read(buf, sector, count)\<close>.  The result is the value returned and the
  new state, or \<open>None\<close> when the busy-wait has not ended within \<open>fuel\<close> reads.
\<close>

definition virtio_blk_read ::
  "('a blk_state_scheme \<Rightarrow> 'a blk_state_scheme) \<Rightarrow> ('a blk_state_scheme \<Rightarrow> 'a blk_state_scheme)
     \<Rightarrow> nat \<Rightarrow> addr \<Rightarrow> u64 \<Rightarrow> u32 \<Rightarrow> 'a blk_state_scheme \<Rightarrow> (int \<times> 'a blk_state_scheme) option" where
  "virtio_blk_read on_notify on_poll fuel buf sector count s =
     (if virtio_blk_base s = 0 \<or> desc_ptr s = 0 \<or> avail_ptr s = 0 \<or> used_ptr s = 0
      then Some (- 1, s)
      else
        let s1 = s\<lparr>req := \<lparr>r_type = VIRTIO_BLK_T_IN, r_reserved = 0, r_sector = sector\<rparr>\<rparr>;
            s2 = s1\<lparr>desc := (desc s1)
                   (0 := \<lparr>d_addr = req_addr s1, d_len = 16, d_flags = VRING_DESC_F_NEXT, d_next = 1\<rparr>,
                    1 := \<lparr>d_addr = buf, d_len = count * 512,
                           d_flags = VRING_DESC_F_WRITE OR VRING_DESC_F_NEXT, d_next = 2\<rparr>,
                    2 := \<lparr>d_addr = status_addr s1, d_len = 1, d_flags = VRING_DESC_F_WRITE,
                           d_next = 0\<rparr>)\<rparr>;
            idx = (ucast ((ucast (avail_idx s2) :: u32) mod virtio_blk_qsize s2) :: u16);
            s3 = s2\<lparr>avail_ring := (avail_ring s2)(unat idx := 0),
                    trace := trace s2 @ [AvailRingWrite idx 0]\<rparr>;
            s4 = s3\<lparr>trace := trace s3 @ [Barrier]\<rparr>;
            s5 = s4\<lparr>avail_idx := avail_idx s4 + 1,
                    trace := trace s4 @ [AvailIdxWrite (avail_idx s4 + 1)]\<rparr>;
            s6 = s5\<lparr>trace := trace s5 @ [Barrier]\<rparr>;
            s7 = on_notify (s6\<lparr>trace := trace s6 @ [MmioWrite (virtio_blk_base s6 + VIRTIO_MMIO_QUEUE_NOTIFY) 0]\<rparr>);
            wait_idx = used_idx s7;
            s8 = s7\<lparr>trace := trace s7 @ [UsedIdxRead wait_idx]\<rparr>
        in case busy_wait on_poll fuel wait_idx s8 of
             None \<Rightarrow> None
           | Some s9 \<Rightarrow>
               let s10 = s9\<lparr>trace := trace s9 @ [StatusRead (status s9)]\<rparr>
               in if status s10 \<noteq> VIRTIO_BLK_S_OK
                  then Some (- 1, printk INFO (VirtioBlkFailed (status s10)) s10)
                  else Some (0, s10))"

text \<open>\<open>virtio_blk_write(buf, sector, count)\<close>, in the same way.\<close>

definition virtio_blk_write ::
  "('a blk_state_scheme \<Rightarrow> 'a blk_state_scheme) \<Rightarrow> ('a blk_state_scheme \<Rightarrow> 'a blk_state_scheme)
     \<Rightarrow> nat \<Rightarrow> addr \<Rightarrow> u64 \<Rightarrow> u32 \<Rightarrow> 'a blk_state_scheme \<Rightarrow> (int \<times> 'a blk_state_scheme) option" where
  "virtio_blk_write on_notify on_poll fuel buf sector count s =
     (if virtio_blk_base s = 0 \<or> desc_ptr s = 0 \<or> avail_ptr s = 0 \<or> used_ptr s = 0
      then Some (- 1, s)
      else
        let s1 = s\<lparr>req_w := \<lparr>r_type = VIRTIO_BLK_T_OUT, r_reserved = 0, r_sector = sector\<rparr>\<rparr>;
            s2 = s1\<lparr>desc := (desc s1)
                   (0 := \<lparr>d_addr = req_w_addr s1, d_len = 16, d_flags = VRING_DESC_F_NEXT, d_next = 1\<rparr>,
                    1 := \<lparr>d_addr = buf, d_len = count * 512, d_flags = VRING_DESC_F_NEXT,
                           d_next = 2\<rparr>,
                    2 := \<lparr>d_addr = status_w_addr s1, d_len = 1, d_flags = VRING_DESC_F_WRITE,
                           d_next = 0\<rparr>)\<rparr>;
            idx = (ucast ((ucast (avail_idx s2) :: u32) mod virtio_blk_qsize s2) :: u16);
            s3 = s2\<lparr>avail_ring := (avail_ring s2)(unat idx := 0),
                    trace := trace s2 @ [AvailRingWrite idx 0]\<rparr>;
            s4 = s3\<lparr>trace := trace s3 @ [Barrier]\<rparr>;
            s5 = s4\<lparr>avail_idx := avail_idx s4 + 1,
                    trace := trace s4 @ [AvailIdxWrite (avail_idx s4 + 1)]\<rparr>;
            s6 = s5\<lparr>trace := trace s5 @ [Barrier]\<rparr>;
            s7 = on_notify (s6\<lparr>trace := trace s6 @ [MmioWrite (virtio_blk_base s6 + VIRTIO_MMIO_QUEUE_NOTIFY) 0]\<rparr>);
            wait_idx = used_idx s7;
            s8 = s7\<lparr>trace := trace s7 @ [UsedIdxRead wait_idx]\<rparr>
        in case busy_wait on_poll fuel wait_idx s8 of
             None \<Rightarrow> None
           | Some s9 \<Rightarrow>
               let s10 = s9\<lparr>trace := trace s9 @ [StatusRead (status_w s9)]\<rparr>
               in if status_w s10 \<noteq> VIRTIO_BLK_S_OK then Some (- 1, s10) else Some (0, s10))"

text \<open>
  A device that is fast: it carries the request out and publishes the completion (the
  status byte \<open>VIRTIO_BLK_S_OK\<close> through descriptor 2, then \<open>used->idx\<close> advanced by
  one) while the driver's store to the notify register is still being carried out, and
  it has nothing more to do afterwards.
\<close>

definition fast_device :: "'a blk_state_scheme \<Rightarrow> 'a blk_state_scheme" where
  "fast_device s =
     (let s1 = (if d_addr (desc s 2) = status_addr s then s\<lparr>status := VIRTIO_BLK_S_OK\<rparr>
                else if d_addr (desc s 2) = status_w_addr s then s\<lparr>status_w := VIRTIO_BLK_S_OK\<rparr>
                else s)
      in s1\<lparr>used_idx := used_idx s1 + 1\<rparr>)"

definition idle_device :: "'a blk_state_scheme \<Rightarrow> 'a blk_state_scheme" where
  "idle_device s = s"

text \<open>The driver after \<open>virtio_blk_init\<close> found a legacy block device in the first
  slot, with 16 descriptors and nothing submitted yet.\<close>

definition blk_ready :: blk_state where
  "blk_ready = \<lparr>klog = [], daif = 0,
     virtio_blk_base = 0x0a000000, virtio_blk_qsize = 16,
     desc_ptr = 0x40600000, avail_ptr = 0x40600100, used_ptr = 0x40601000,
     desc = (\<lambda>i. \<lparr>d_addr = 0, d_len = 0, d_flags = 0, d_next = 0\<rparr>),
     avail_idx = 0, avail_ring = (\<lambda>i. 0), used_idx = 0,
     req = \<lparr>r_type = 0, r_reserved = 0, r_sector = 0\<rparr>, req_addr = 0x40080100,
     status = 0xFF, status_addr = 0x40080110,
     req_w = \<lparr>r_type = 0, r_reserved = 0, r_sector = 0\<rparr>, req_w_addr = 0x40080120,
     status_w = 0xFF, status_w_addr = 0x40080130,
     trace = []\<rparr>"

section \<open>Window compositor (compositor.c)\<close>

definition MAX_WINDOWS :: nat where "MAX_WINDOWS = 16"

text \<open>
  \<open>struct window\<close>.  The fields \<open>id\<close>, \<open>x\<close>, \<open>y\<close> and \<open>pid\<close> are \<open>win_id\<close>,
  \<open>w_x\<close>, \<open>w_y\<close> and \<open>w_pid\<close> here.  Characters are bytes; the title is the string
  without its terminator; \<open>escape_buf\<close> is the array of 32 bytes.
\<close>

record window =
  win_id :: int
  w_x :: int
  w_y :: int
  width :: int
  height :: int
  z_order :: int
  visible :: int
  w_pid :: int
  protected :: int
  buffer :: addr
  bg_color :: u32
  title :: "u8 list"
  cursor_x :: int
  cursor_y :: int
  fg_color :: u32
  escape_state :: int
  escape_buf :: "nat \<Rightarrow> u8"
  escape_len :: int

text \<open>
  Memory as the pixel code sees it: bytes by address.  \<open>store32\<close> is a 32-bit store,
  which writes the four bytes at its address, least significant byte first; \<open>load32\<close>
  is the 32-bit load.  \<open>elem32 b j\<close> is the address of \<open>b[j]\<close> for a pointer
  \<open>uint32_t *b\<close> and an \<open>int\<close> index, which is sign extended to 64 bits.
\<close>

type_synonym memory = "addr \<Rightarrow> u8"

definition store32 :: "addr \<Rightarrow> u32 \<Rightarrow> memory \<Rightarrow> memory" where
  "store32 a v m = (\<lambda>b. if b - a < 4 then ucast (drop_bit (8 * unat (b - a)) v) else m b)"

definition load32 :: "memory \<Rightarrow> addr \<Rightarrow> u32" where
  "load32 m a = ucast (m a) OR push_bit 8 (ucast (m (a + 1))) OR
     push_bit 16 (ucast (m (a + 2))) OR push_bit 24 (ucast (m (a + 3)))"

definition elem32 :: "addr \<Rightarrow> int \<Rightarrow> addr" where
  "elem32 b j = b + 4 * word_of_int j"

text \<open>
  The compositor's globals \<open>windows\<close>, \<open>window_count\<close> and \<open>next_window_id\<close>.
  \<open>pixels\<close> is the memory that the pixel buffers live in.  \<open>compositor_render\<close>
  reads the windows and writes the screen's back buffer and the GPU, which are outside
  the model; \<open>renders\<close> counts its calls.
\<close>

record comp_state = heap_state +
  windows :: "nat \<Rightarrow> window"
  window_count :: int
  next_window_id :: int
  pixels :: memory
  renders :: nat

definition compositor_render :: "'a comp_state_scheme \<Rightarrow> 'a comp_state_scheme" where
  "compositor_render s = s\<lparr>renders := Suc (renders s)\<rparr>"

text \<open>
  \<open>compositor_draw_rect\<close>.  \<open>draw_rect_pixel\<close> is the body of the two loops for one
  \<open>dy\<close> and \<open>dx\<close>; \<open>draw_rect_fill\<close> is the two loops, \<open>dy\<close> from 0 below \<open>h\<close> and
  \<open>dx\<close> from 0 below \<open>w\<close>; \<open>draw_rect_slot\<close> finds the first slot whose window
  has the identifier and a buffer.
\<close>

definition draw_rect_pixel ::
  "window \<Rightarrow> int \<Rightarrow> int \<Rightarrow> u32 \<Rightarrow> int \<Rightarrow> int \<Rightarrow> memory \<Rightarrow> memory" where
  "draw_rect_pixel win x y color dy dx px =
     (let ppx = s32 (x + dx); ppy = s32 (y + dy)
      in if 0 \<le> ppx \<and> ppx < width win \<and> 0 \<le> ppy \<and> ppy < height win
         then store32 (elem32 (buffer win) (s32 (s32 (ppy * width win) + ppx))) color px
         else px)"

definition draw_rect_fill ::
  "window \<Rightarrow> int \<Rightarrow> int \<Rightarrow> int \<Rightarrow> int \<Rightarrow> u32 \<Rightarrow> memory \<Rightarrow> memory" where
  "draw_rect_fill win x y w h color px =
     fold (\<lambda>dy. fold (\<lambda>dx. draw_rect_pixel win x y color dy dx) [0..w - 1]) [0..h - 1] px"

definition draw_rect_slot :: "'a comp_state_scheme \<Rightarrow> int \<Rightarrow> nat option" where
  "draw_rect_slot s window_id =
     find (\<lambda>i. win_id (windows s i) = window_id \<and> buffer (windows s i) \<noteq> 0) [0..<MAX_WINDOWS]"

definition compositor_draw_rect ::
  "int \<Rightarrow> int \<Rightarrow> int \<Rightarrow> int \<Rightarrow> int \<Rightarrow> u32 \<Rightarrow> int \<Rightarrow> 'a comp_state_scheme \<Rightarrow> 'a comp_state_scheme" where
  "compositor_draw_rect window_id x y w h color caller_pid s =
     (let s1 = local_irq_disable s
      in case draw_rect_slot s1 window_id of
           None \<Rightarrow> local_irq_enable s1
         | Some i \<Rightarrow>
             if w_pid (windows s1 i) \<noteq> caller_pid \<and> caller_pid \<noteq> 1
             then local_irq_enable
                    (printk WARN (CompositorDrawDenied caller_pid window_id (w_pid (windows s1 i))) s1)
             else local_irq_enable
                    (s1\<lparr>pixels := draw_rect_fill (windows s1 i) x y w h color (pixels s1)\<rparr>))"

text \<open>
  \<open>compositor_create_window\<close>.  \<open>fill_buffer b n v\<close> is the loop
  \<open>for (int i = 0; i < n; i++) b[i] = v\<close>.  The size passed to \<open>kmalloc\<close> is
  \<open>w * h * sizeof(uint32_t)\<close>: the product of the two \<open>int\<close>s, converted to
  \<open>size_t\<close> and multiplied by 4.  The result is the value returned and the new state;
  there is none when \<open>kmalloc\<close> does not return.
\<close>

definition fill_buffer :: "addr \<Rightarrow> int \<Rightarrow> u32 \<Rightarrow> memory \<Rightarrow> memory" where
  "fill_buffer b n v px = fold (\<lambda>i. store32 (elem32 b i) v) [0..n - 1] px"

definition create_window_slot :: "'a comp_state_scheme \<Rightarrow> nat option" where
  "create_window_slot s = find (\<lambda>i. win_id (windows s i) = 0) [0..<MAX_WINDOWS]"

definition compositor_create_window ::
  "int \<Rightarrow> int \<Rightarrow> int \<Rightarrow> int \<Rightarrow> u8 list \<Rightarrow> int \<Rightarrow> 'a comp_state_scheme
     \<Rightarrow> (int \<times> 'a comp_state_scheme) option" where
  "compositor_create_window x y w h ttl owner_pid s =
     (let s1 = local_irq_disable s
      in if int MAX_WINDOWS \<le> window_count s1
         then Some (- 1, local_irq_enable (printk ERR CompositorMaxWindows s1))
         else
           case create_window_slot s1 of
             None \<Rightarrow> Some (- 1, s1)
           | Some slot \<Rightarrow>
               (case kmalloc (word_of_int (s32 (w * h)) * 4) s1 of
                  None \<Rightarrow> None
                | Some (buf, s2) \<Rightarrow>
                    if buf = 0 then Some (- 1, printk ERR CompositorAllocFailed s2)
                    else
                      let s3 = s2\<lparr>pixels := fill_buffer buf (s32 (w * h)) 0xFF17171A (pixels s2)\<rparr>;
                          win = (windows s3 slot)\<lparr>win_id := next_window_id s3, w_x := x, w_y := y,
                                  width := w, height := h, z_order := window_count s3,
                                  visible := 1, w_pid := owner_pid, buffer := buf,
                                  bg_color := 0xFF17171A,
                                  title := take 63 (takeWhile (\<lambda>c. c \<noteq> 0) ttl),
                                  cursor_x := 0, cursor_y := 0, fg_color := 0xFFFFFFFF,
                                  escape_state := 0, escape_len := 0\<rparr>;
                          s4 = s3\<lparr>windows := (windows s3)(slot := win),
                                  next_window_id := s32 (next_window_id s3 + 1)\<rparr>;
                          s5 = s4\<lparr>pixels := fill_buffer buf (s32 (w * h)) (bg_color win) (pixels s4)\<rparr>;
                          s6 = s5\<lparr>windows := (windows s5)
                                    (slot := (windows s5 slot)\<lparr>protected := (if owner_pid = 2 then 1 else 0)\<rparr>),
                                  window_count := s32 (window_count s5 + 1)\<rparr>;
                          s7 = printk INFO (CompositorCreated (takeWhile (\<lambda>c. c \<noteq> 0) ttl) w h x y) s6
                      in Some (win_id (windows s7 slot), local_irq_enable s7)))"

text \<open>
  A window table for concrete runs: the zeroed table of \<open>compositor_init\<close> with one
  window in slot 0, created by process 2 with 32 by 32 pixels, its buffer filled with
  the background colour.  The heap behind it is \<open>heap1\<close>.
\<close>

definition window0 :: window where
  "window0 = \<lparr>win_id = 0, w_x = 0, w_y = 0, width = 0, height = 0, z_order = 0, visible = 0,
     w_pid = 0, protected = 0, buffer = 0, bg_color = 0, title = [], cursor_x = 0,
     cursor_y = 0, fg_color = 0, escape_state = 0, escape_buf = (\<lambda>i. 0), escape_len = 0\<rparr>"

definition window1 :: window where
  "window1 = window0\<lparr>win_id := 1, w_x := 100, w_y := 100, width := 32, height := 32,
     visible := 1, w_pid := 2, protected := 1, buffer := 0x40500020, bg_color := 0xFF17171A,
     title := [119], fg_color := 0xFFFFFFFF\<rparr>"

definition comp1 :: comp_state where
  "comp1 = \<lparr>klog = [], daif = 0,
     page_array = page_array pmm_boot, zones = zones pmm_boot,
     total_pages = total_pages pmm_boot, free_pages = free_pages pmm_boot,
     heap_base = 0x40500000, heap_end = 0x40D00000, heap_ptr = 0x40501040, free_list = 0,
     heap_initialized = 1,
     hdr = (\<lambda>a. \<lparr>magic = 0, bsize = 0, bnext = 0\<rparr>)
             (0x40500000 := \<lparr>magic = BLOCK_MAGIC, bsize = 4128, bnext = 0\<rparr>),
     windows = (\<lambda>i. window0)(0 := window1),
     window_count = 1, next_window_id = 2,
     pixels = fill_buffer 0x40500020 1024 0xFF17171A (\<lambda>a. 0),
     renders = 0\<rparr>"



section \<open>The window terminal (compositor.c) and the write system call (syscall.c)\<close>

text \<open>The bytes the terminal looks for.\<close>

definition ESC :: u8 where "ESC = 27"
definition LF :: u8 where "LF = 10"
definition CR :: u8 where "CR = 13"
definition BS :: u8 where "BS = 8"
definition DEL :: u8 where "DEL = 127"

definition is_letter :: "u8 \<Rightarrow> bool" where
  "is_letter c \<longleftrightarrow> (97 \<le> c \<and> c \<le> 122) \<or> (65 \<le> c \<and> c \<le> 90)"

definition sgr_colors :: "u32 list" where
  "sgr_colors = [0xFF000000, 0xFFBB0000, 0xFF00BB00, 0xFFBBBB00,
                 0xFF0000BB, 0xFFBB00BB, 0xFF00BBBB, 0xFFBBBBBB]"

definition sgr_bright_colors :: "u32 list" where
  "sgr_bright_colors = [0xFF555555, 0xFFFF5555, 0xFF55FF55, 0xFFFFFF55,
                        0xFF5555FF, 0xFFFF55FF, 0xFF55FFFF, 0xFFFFFFFF]"

text \<open>
  \<open>handle_sgr\<close>.  \<open>sgr_value\<close> is its loop: the decimal digits among the first
  \<open>escape_len\<close> bytes of the parameter buffer, read as one number.
\<close>

definition sgr_value :: "window \<Rightarrow> int" where
  "sgr_value win =
     fold (\<lambda>i v. if 48 \<le> escape_buf win i \<and> escape_buf win i \<le> 57
                  then s32 (s32 (v * 10) + (uint (escape_buf win i) - 48)) else v)
       [0..<nat (escape_len win)] 0"

definition handle_sgr :: "window \<Rightarrow> window" where
  "handle_sgr win =
     (if escape_len win = 0 then win\<lparr>fg_color := 0xFFFFFFFF\<rparr>
      else
        let val = sgr_value win
        in if val = 0 then win\<lparr>fg_color := 0xFFFFFFFF\<rparr>
           else if 30 \<le> val \<and> val \<le> 37 then win\<lparr>fg_color := sgr_colors ! nat (val - 30)\<rparr>
           else if 90 \<le> val \<and> val \<le> 97 then win\<lparr>fg_color := sgr_bright_colors ! nat (val - 90)\<rparr>
           else win)"

text \<open>
  \<open>graphics_draw_char\<close> lives in the font source, which is not among the sources.
  It is a parameter of the model: a function from the graphics context it draws
  through (buffer, width, height), the position (the two \<open>int\<close>s passed), the
  character, the colour and the memory to the new memory.
\<close>

type_synonym glyph_painter =
  "addr \<Rightarrow> u32 \<Rightarrow> u32 \<Rightarrow> int \<Rightarrow> int \<Rightarrow> u8 \<Rightarrow> u32 \<Rightarrow> memory \<Rightarrow> memory"

text \<open>
  \<open>memmove(d, s, n)\<close> of the kernel's string library: bytes are copied one by one,
  upwards when \<open>d < s\<close> and downwards otherwise.
\<close>

definition memmove :: "addr \<Rightarrow> addr \<Rightarrow> nat \<Rightarrow> memory \<Rightarrow> memory" where
  "memmove d s n m =
     fold (\<lambda>k q. q(d + of_nat k := q (s + of_nat k))) (if d < s then [0..<n] else rev [0..<n]) m"

text \<open>
  The scroll at the end of the loop body of \<open>compositor_window_write\<close>:
  \<open>memmove(buffer, buffer + line_size, width * (height - char_h) * 4)\<close>, then the last
  text line is cleared.  \<open>scroll_bytes\<close> is the \<open>int\<close> that becomes the length of the
  move; when it is negative the length, a \<open>size_t\<close>, is above \<open>2^63\<close>: the copy
  runs through the whole address space and faults.
\<close>

definition scroll_bytes :: "window \<Rightarrow> int" where
  "scroll_bytes win = s32 (s32 (width win * s32 (height win - 16)) * 4)"

definition scroll_up :: "window \<Rightarrow> memory \<Rightarrow> memory" where
  "scroll_up win px =
     (let line_size = s32 (width win * 16);
          moved = memmove (buffer win) (elem32 (buffer win) line_size) (nat (scroll_bytes win)) px
      in fold (\<lambda>p. store32 (elem32 (buffer win) p) (bg_color win))
           [s32 (width win * s32 (height win - 16))..s32 (width win * height win) - 1] moved)"

text \<open>
  The body of the loop of \<open>compositor_window_write\<close> for one byte \<open>c\<close>; \<open>i\<close> is the
  slot of the window (\<open>win = &windows[i]\<close>), \<open>cols\<close> and \<open>rows\<close> are the locals
  computed before the loop.  \<open>put_window\<close> stores a changed window record back into
  its slot.  \<open>window_escape\<close> is the chain of tests on the parser state,
  \<open>window_wrap\<close> the two tests on the cursor that follow it; its result is \<open>None\<close>
  when the scroll faults.
\<close>

definition put_window :: "nat \<Rightarrow> window \<Rightarrow> 'a comp_state_scheme \<Rightarrow> 'a comp_state_scheme" where
  "put_window i win s = s\<lparr>windows := (windows s)(i := win)\<rparr>"

definition window_escape :: "glyph_painter \<Rightarrow> int \<Rightarrow> nat \<Rightarrow> u8 \<Rightarrow> 'a comp_state_scheme \<Rightarrow> 'a comp_state_scheme" where
  "window_escape dc wid i c s =
     (let win = windows s i
      in if escape_state win = 0 then
           (if c = ESC then put_window i (win\<lparr>escape_state := 1, escape_len := 0\<rparr>) s
            else if c = LF then put_window i (win\<lparr>cursor_x := 0, cursor_y := s32 (cursor_y win + 1)\<rparr>) s
            else if c = CR then put_window i (win\<lparr>cursor_x := 0\<rparr>) s
            else if c = BS \<or> c = DEL then
              (if 0 < cursor_x win then put_window i (win\<lparr>cursor_x := s32 (cursor_x win - 1)\<rparr>) s else s)
            else if 32 \<le> c \<and> c < 127 then
              (let s1 = compositor_draw_rect wid (s32 (cursor_x win * 8)) (s32 (cursor_y win * 16)) 8 16
                          (bg_color win) (w_pid win) s;
                   s2 = s1\<lparr>pixels := dc (buffer win) (word_of_int (width win)) (word_of_int (height win))
                                        (s32 (cursor_x (windows s1 i) * 8))
                                        (s32 (cursor_y (windows s1 i) * 16)) c
                                        (fg_color (windows s1 i)) (pixels s1)\<rparr>
               in put_window i ((windows s2 i)\<lparr>cursor_x := s32 (cursor_x (windows s2 i) + 1)\<rparr>) s2)
            else s)
         else if escape_state win = 1 then
           (if c = 91 then put_window i (win\<lparr>escape_state := 2\<rparr>) s
            else put_window i (win\<lparr>escape_state := 0\<rparr>) s)
         else if escape_state win = 2 then
           (if is_letter c then
              (if c = 109 then put_window i ((handle_sgr win)\<lparr>escape_state := 0\<rparr>) s
               else if c = 74 then
                 put_window i (win\<lparr>cursor_x := 0, cursor_y := 0, escape_state := 0\<rparr>)
                   (s\<lparr>pixels := fill_buffer (buffer win) (s32 (width win * height win))
                                   (bg_color win) (pixels s)\<rparr>)
               else if c = 72 then
                 put_window i (win\<lparr>cursor_x := 0, cursor_y := 0, escape_state := 0\<rparr>) s
               else put_window i (win\<lparr>escape_state := 0\<rparr>) s)
            else if escape_len win < 31 then
              put_window i (win\<lparr>escape_buf := (escape_buf win)(nat (escape_len win) := c),
                                 escape_len := s32 (escape_len win + 1)\<rparr>) s
            else put_window i (win\<lparr>escape_state := 0\<rparr>) s)
         else s)"

definition window_wrap :: "nat \<Rightarrow> int \<Rightarrow> int \<Rightarrow> 'a comp_state_scheme \<Rightarrow> 'a comp_state_scheme option" where
  "window_wrap i cols rows s =
     (let win = windows s i;
          win1 = (if cols \<le> cursor_x win then win\<lparr>cursor_x := 0, cursor_y := s32 (cursor_y win + 1)\<rparr>
                  else win)
      in if rows \<le> cursor_y win1 then
           (if scroll_bytes win1 < 0 then None
            else Some (put_window i (win1\<lparr>cursor_y := s32 (rows - 1)\<rparr>)
                         (s\<lparr>pixels := scroll_up win1 (pixels s)\<rparr>)))
         else Some (put_window i win1 s))"

definition window_putc ::
  "glyph_painter \<Rightarrow> int \<Rightarrow> nat \<Rightarrow> int \<Rightarrow> int \<Rightarrow> u8 \<Rightarrow> 'a comp_state_scheme \<Rightarrow> 'a comp_state_scheme option" where
  "window_putc dc wid i cols rows c s = window_wrap i cols rows (window_escape dc wid i c s)"

fun write_bytes ::
  "(u8 \<Rightarrow> 'a comp_state_scheme \<Rightarrow> 'a comp_state_scheme option) \<Rightarrow> u8 list \<Rightarrow> 'a comp_state_scheme
     \<Rightarrow> 'a comp_state_scheme option" where
  "write_bytes f [] s = Some s"
| "write_bytes f (c # cs) s = (case f c s of None \<Rightarrow> None | Some s' \<Rightarrow> write_bytes f cs s')"

text \<open>
  \<open>compositor_window_write(win_id, buf, count)\<close>; \<open>bytes\<close> are the \<open>count\<close> bytes at
  \<open>buf\<close>.  The graphics context is pointed at the window's buffer for the loop and
  restored before the render.
\<close>

definition write_slot :: "'a comp_state_scheme \<Rightarrow> int \<Rightarrow> nat option" where
  "write_slot s wid = find (\<lambda>i. win_id (windows s i) = wid) [0..<MAX_WINDOWS]"

definition compositor_window_write ::
  "glyph_painter \<Rightarrow> int \<Rightarrow> u8 list \<Rightarrow> 'a comp_state_scheme \<Rightarrow> 'a comp_state_scheme option" where
  "compositor_window_write dc wid bytes s =
     (case write_slot s wid of
        None \<Rightarrow> Some s
      | Some i \<Rightarrow>
          if buffer (windows s i) = 0 then Some s
          else
            let s1 = local_irq_disable s;
                cols = c_div (width (windows s1 i)) 8;
                rows = c_div (height (windows s1 i)) 16
            in case write_bytes (window_putc dc wid i cols rows) bytes s1 of
                 None \<Rightarrow> None
               | Some s2 \<Rightarrow> Some (local_irq_enable (compositor_render s2)))"

text \<open>\<open>compositor_get_window_by_pid\<close>: the identifier found (or \<open>-1\<close>) and the new
  state.\<close>

definition compositor_get_window_by_pid :: "int \<Rightarrow> 'a comp_state_scheme \<Rightarrow> int \<times> 'a comp_state_scheme" where
  "compositor_get_window_by_pid p s =
     (let s1 = local_irq_disable s
      in case find (\<lambda>i. win_id (windows s1 i) \<noteq> 0 \<and> w_pid (windows s1 i) = p) [0..<MAX_WINDOWS] of
           Some i \<Rightarrow> (win_id (windows s1 i), local_irq_enable s1)
         | None \<Rightarrow> (- 1, local_irq_enable s1))"

text \<open>
  \<open>sys_write(fd, buf, count)\<close>.  \<open>sch\<close> is the scheduler's state, from which the
  caller's identifier is read (\<open>current_process ? current_process->pid : 0\<close>); \<open>buf\<close>
  is the memory at the buffer's address, as an array of bytes.  The result is the
  \<open>long\<close> returned, as the 64-bit word that lands in register \<open>x0\<close>, and the new state.
\<close>

definition caller_pid_of :: "sched_state \<Rightarrow> int" where
  "caller_pid_of sch =
     (if current_process sch \<noteq> 0 then sint (pid (procs sch (current_process sch))) else 0)"

definition console_write :: "u8 list \<Rightarrow> 'a comp_state_scheme \<Rightarrow> 'a comp_state_scheme" where
  "console_write bytes s = fold (\<lambda>c. printk RAW (Putc c)) bytes s"

definition sys_write ::
  "glyph_painter \<Rightarrow> sched_state \<Rightarrow> int \<Rightarrow> (nat \<Rightarrow> u8) \<Rightarrow> u64 \<Rightarrow> 'a comp_state_scheme
     \<Rightarrow> (u64 \<times> 'a comp_state_scheme) option" where
  "sys_write dc sch fd buf count s =
     (let bytes = map buf [0..<unat count]
      in if fd = 1 \<or> fd = 2 then
           (let (wid, s1) = compositor_get_window_by_pid (caller_pid_of sch) s
            in if 0 \<le> wid then
                 (case compositor_window_write dc wid bytes s1 of
                    None \<Rightarrow> None
                  | Some s2 \<Rightarrow> Some (count, s2))
               else Some (count, console_write bytes s1))
         else Some (count, console_write bytes s))"




text \<open>For concrete runs: the process table \<open>sched3\<close> with process 3 running.\<close>

definition sched_p3 :: sched_state where
  "sched_p3 = sched3\<lparr>current_pid := 2, current_process := 0x40300000\<rparr>"


chapter \<open>Properties\<close>

section \<open>Arithmetic on C integers\<close>

lemma s32_id: "int32 v \<Longrightarrow> s32 v = v"
  by (simp add: s32_def int32_def)

lemma s32_add_nonneg:
  assumes "int32 x" and "0 \<le> d" and "d < 2 ^ 31" and "0 \<le> s32 (x + d)"
  shows "s32 (x + d) = x + d"
proof (cases "x + d < 2 ^ 31")
  case True
  then show ?thesis using assms by (simp add: s32_id int32_def)
next
  case False
  then have r: "2 ^ 31 \<le> x + d" "x + d < 2 ^ 32" using assms by (simp_all add: int32_def)
  have "(x + d + 2 ^ 31) mod 2 ^ 32 = x + d + 2 ^ 31 - 2 ^ 32"
  proof -
    have "(x + d + 2 ^ 31) mod 2 ^ 32 = (x + d + 2 ^ 31 - 2 ^ 32) mod 2 ^ 32"
      by (metis mod_diff_right_eq mod_self diff_zero)
    also have "\<dots> = x + d + 2 ^ 31 - 2 ^ 32" using r by simp
    finally show ?thesis .
  qed
  then have "s32 (x + d) = x + d - 2 ^ 32" by (simp add: s32_def)
  with r assms(4) show ?thesis by simp
qed

section \<open>Scheduler: round robin and the saved frame\<close>

lemma c_rem_nonneg: "0 \<le> a \<Longrightarrow> 0 < b \<Longrightarrow> c_rem a b = a mod b"
  by (simp add: c_rem_def sgn_if minus_div_mult_eq_mod algebra_simps)

lemma save_current_fields [simp]:
  "process_count (save_current regs s) = process_count s"
  "current_pid (save_current regs s) = current_pid s"
  "process_pool (save_current regs s) = process_pool s"
  "current_process (save_current regs s) = current_process s"
  by (simp_all add: save_current_def)

lemma schedule_step:
  assumes "wf_sched s"
  shows "\<exists>ctx s1. schedule regs s = Some (ctx, s1) \<and> wf_sched s1 \<and>
     process_count s1 = process_count s \<and> process_pool s1 = process_pool s \<and>
     procs s1 = procs (save_current regs s) \<and>
     ctx = pcontext (procs s1 (current_process s1)) \<and>
     current_pid s1 = (current_pid s + 1) mod process_count s \<and>
     current_process s1 = process_pool s ! nat ((current_pid s + 1) mod process_count s)"
proof -
  let ?n = "process_count s"
  let ?cp = "(current_pid s + 1) mod ?n"
  from assms have n: "0 < ?n" "?n \<le> 16" "length (process_pool s) = 16" "0 \<le> current_pid s + 1"
      "current_pid s + 1 \<le> 16"
    and nz: "0 \<notin> set (take (nat ?n) (process_pool s))"
    by (auto simp: wf_sched_def MAX_PROCESSES_def)
  have w: "s32 (current_pid s + 1) = current_pid s + 1"
    using n by (intro s32_id) (simp add: int32_def)
  have cp: "c_rem (s32 (current_pid s + 1)) ?n = ?cp" using n w by (simp add: c_rem_nonneg)
  have r: "0 \<le> ?cp" "?cp < ?n" using n by simp_all
  have "nat ?cp < length (take (nat ?n) (process_pool s))" using r n by simp
  then have "take (nat ?n) (process_pool s) ! nat ?cp \<in> set (take (nat ?n) (process_pool s))"
    by (rule nth_mem)
  moreover have "take (nat ?n) (process_pool s) ! nat ?cp = process_pool s ! nat ?cp"
    using r by simp
  ultimately have nn: "process_pool s ! nat ?cp \<noteq> 0" using nz by metis
  show ?thesis using n r cp nn nz
    by (auto simp: schedule_def Let_def wf_sched_def MAX_PROCESSES_def)
qed

text \<open>Counting residues: a window of \<open>N * k\<close> consecutive numbers meets every residue
  class modulo \<open>N\<close> exactly \<open>k\<close> times.\<close>

lemma period_inj:
  fixes N :: nat
  shows "inj_on (\<lambda>j. (c + j) mod N) {m..<m+N}"
proof (rule inj_onI)
  fix x y assume x: "x \<in> {m..<m+N}" and y: "y \<in> {m..<m+N}"
    and e: "(c + x) mod N = (c + y) mod N"
  have aux: "a = b" if "a \<le> b" "b < a + N" "(c + a) mod N = (c + b) mod N" for a b :: nat
  proof -
    have "N dvd (c + b) - (c + a)"
      using that by (subst mod_eq_dvd_iff_nat [symmetric]) simp_all
    then have d: "N dvd b - a" by simp
    have "b - a < N" using that by simp
    with d have "b - a = 0" using nat_dvd_not_less [of "b - a" N] by fastforce
    with that show ?thesis by simp
  qed
  show "x = y"
  proof (cases "x \<le> y")
    case True then show ?thesis using aux [of x y] x y e by simp
  next
    case False then show ?thesis using aux [of y x] x y e by simp
  qed
qed

lemma count_list_distinct_mem:
  "distinct xs \<Longrightarrow> x \<in> set xs \<Longrightarrow> count_list xs x = 1"
  by (induction xs) auto

lemma period_count:
  fixes N :: nat
  assumes "i < N"
  shows "count_list (map (\<lambda>j. (c + j) mod N) [m..<m+N]) i = 1"
proof -
  let ?f = "\<lambda>j. (c + j) mod N"
  define d where "d = (i + N - (c + m) mod N) mod N"
  have dN: "d < N" using assms by (simp add: d_def)
  have "(c + (m + d)) mod N = ((c + m) mod N + d) mod N"
    by (simp add: add.assoc mod_add_left_eq)
  also have "\<dots> = ((c + m) mod N + (i + N - (c + m) mod N)) mod N"
    by (simp add: d_def mod_add_right_eq)
  also have "(c + m) mod N + (i + N - (c + m) mod N) = i + N"
  proof -
    have "(c + m) mod N < N" using assms by simp
    then show ?thesis by simp
  qed
  also have "(i + N) mod N = i" using assms by simp
  finally have fi: "?f (m + d) = i" .
  have mem: "m + d \<in> set [m..<m+N]" using dN by simp
  have "count_list (map ?f [m..<m+N]) (?f (m + d)) = count_list [m..<m+N] (m + d)"
    by (rule count_list_inj_map) (use period_inj [of c N m] mem in simp_all)
  also have "\<dots> = 1" by (rule count_list_distinct_mem) (use mem in simp_all)
  finally show ?thesis using fi by simp
qed

lemma window_count:
  fixes N :: nat
  assumes "i < N"
  shows "count_list (map (\<lambda>j. (c + j) mod N) [m..<m + N * k]) i = k"
proof (induction k)
  case 0 show ?case by simp
next
  case (Suc k)
  have e: "m + N * Suc k = (m + N * k) + N" by simp
  have "[m..<m + N * Suc k] = [m..<m + N * k] @ [m + N * k..<(m + N * k) + N]"
    unfolding e by (rule upt_add_eq_append) simp
  then show ?case using Suc period_count [OF assms, of c "m + N * k"] by simp
qed

text \<open>The processes selected by a run of ticks, in closed form.\<close>

lemma ticks_selected:
  assumes "wf_sched s"
  shows "\<exists>sel s'. ticks frames s = Some (sel, s') \<and>
     sel = map (\<lambda>j. process_pool s ! ((nat (current_pid s + 1) + j) mod nat (process_count s)))
             [0..<length frames]"
  using assms
proof (induction frames arbitrary: s)
  case Nil
  show ?case by simp
next
  case (Cons regs rs)
  let ?n = "process_count s"
  from Cons.prems have n: "0 < ?n" "0 \<le> current_pid s + 1"
    by (auto simp: wf_sched_def)
  obtain ctx s1 where s1: "schedule regs s = Some (ctx, s1)" "wf_sched s1"
      "process_count s1 = ?n" "process_pool s1 = process_pool s"
      "current_pid s1 = (current_pid s + 1) mod ?n"
      "current_process s1 = process_pool s ! nat ((current_pid s + 1) mod ?n)"
    using schedule_step [OF Cons.prems, of regs] by blast
  obtain sel s' where t: "ticks rs s1 = Some (sel, s')"
      "sel = map (\<lambda>j. process_pool s1 ! ((nat (current_pid s1 + 1) + j) mod nat (process_count s1)))
               [0..<length rs]"
    using Cons.IH [OF s1(2)] by blast
  have c: "nat ((current_pid s + 1) mod ?n) = nat (current_pid s + 1) mod nat ?n"
    using n by (simp add: nat_mod_distrib)
  have "0 \<le> (current_pid s + 1) mod ?n" using n by simp
  then have "nat (current_pid s1 + 1) = nat (current_pid s + 1) mod nat ?n + 1"
    using c s1(5) by (simp add: nat_add_distrib)
  then have shift: "(nat (current_pid s1 + 1) + j) mod nat ?n
      = (nat (current_pid s + 1) + Suc j) mod nat ?n" for j
  proof -
    assume a: "nat (current_pid s1 + 1) = nat (current_pid s + 1) mod nat ?n + 1"
    have "(nat (current_pid s + 1) mod nat ?n + (1 + j)) mod nat ?n
        = (nat (current_pid s + 1) + (1 + j)) mod nat ?n"
      by (rule mod_add_left_eq)
    then show ?thesis using a by (simp add: add.assoc)
  qed
  have a: "ticks (regs # rs) s = Some (current_process s1 # sel, s')"
    using s1(1) t(1) by simp
  have b: "current_process s1 # sel
      = map (\<lambda>j. process_pool s ! ((nat (current_pid s + 1) + j) mod nat ?n))
          [0..<length (regs # rs)]"
    using t(2) s1(3,4,6) c shift by (simp add: map_upt_Suc del: upt_Suc)
  show ?case
    by (rule exI [of _ "current_process s1 # sel"], rule exI [of _ s'], rule conjI [OF a b])
qed

text \<open>
  Claim C1.  On a process table as the kernel keeps it (\<open>wf_sched\<close>: the current
  index is \<open>-1\<close> or that of a populated slot, and no populated slot is \<open>NULL\<close>),
  every timer tick makes \<open>schedule\<close> advance the current index by one modulo the
  number of populated slots and select the process in that slot; so with \<open>N\<close>
  populated slots holding \<open>N\<close> different processes, and no process created or
  removed meanwhile, any \<open>N * k\<close> consecutive ticks select each of the \<open>N\<close>
  processes exactly \<open>k\<close> times.
\<close>

theorem schedule_round_robin:
  assumes "wf_sched s" and "process_count s = int N"
    and "distinct (take N (process_pool s))" and "length frames = N * k"
  shows "(\<forall>regs. \<exists>ctx s1. schedule regs s = Some (ctx, s1) \<and>
            current_pid s1 = (current_pid s + 1) mod int N \<and>
            current_process s1 = process_pool s ! nat (current_pid s1)) \<and>
         (\<exists>sel s'. ticks frames s = Some (sel, s') \<and> length sel = N * k \<and>
            (\<forall>i<N. count_list sel (process_pool s ! i) = k))"
proof (rule conjI)
  show "\<forall>regs. \<exists>ctx s1. schedule regs s = Some (ctx, s1) \<and>
            current_pid s1 = (current_pid s + 1) mod int N \<and>
            current_process s1 = process_pool s ! nat (current_pid s1)"
    using schedule_step [OF assms(1)] assms(2) by metis
next
  let ?pool = "process_pool s"
  let ?g = "\<lambda>j. (nat (current_pid s + 1) + j) mod N"
  from assms have N: "0 < N" "N \<le> length ?pool"
    by (auto simp: wf_sched_def MAX_PROCESSES_def)
  obtain sel s' where t: "ticks frames s = Some (sel, s')"
      "sel = map (\<lambda>j. ?pool ! ?g j) [0..<N * k]"
    using ticks_selected [OF assms(1), of frames] assms(2,4) by auto
  have inj: "inj_on ((!) ?pool) {..<N}"
  proof (rule inj_onI)
    fix a b assume "a \<in> {..<N}" "b \<in> {..<N}" "?pool ! a = ?pool ! b"
    then show "a = b"
      using assms(3) N by (auto simp: distinct_conv_nth)
  qed
  have cnt: "count_list sel (?pool ! i) = k" if "i < N" for i
  proof -
    have ci: "count_list (map ?g [0..<N * k]) i = k"
      using window_count [OF that, of "nat (current_pid s + 1)" 0 k] by simp
    then have "0 < k \<Longrightarrow> i \<in> set (map ?g [0..<N * k])"
      using count_list_0_iff [of "map ?g [0..<N * k]" i] by simp
    have sub: "set (map ?g [0..<N * k]) \<subseteq> {..<N}" using N by auto
    show ?thesis
    proof (cases "k = 0")
      case True
      then show ?thesis using t(2) by simp
    next
      case False
      then have mem: "i \<in> set (map ?g [0..<N * k])"
        using ci count_list_0_iff [of "map ?g [0..<N * k]" i] by simp
      have "sel = map ((!) ?pool) (map ?g [0..<N * k])" using t(2) by simp
      then have "count_list sel (?pool ! i) = count_list (map ?g [0..<N * k]) i"
        using count_list_inj_map [of "(!) ?pool" "map ?g [0..<N * k]" i]
          inj_on_subset [OF inj sub] mem by simp
      then show ?thesis using ci by simp
    qed
  qed
  show "\<exists>sel s'. ticks frames s = Some (sel, s') \<and> length sel = N * k \<and>
            (\<forall>i<N. count_list sel (?pool ! i) = k)"
    using t cnt by simp
qed

lemma wf_sched3: "wf_sched sched3"
  by (simp add: wf_sched_def sched3_def MAX_PROCESSES_def)

text \<open>Outside these tables the code faults: at the largest \<open>int\<close> the sum wraps and the
  remainder is negative, and an empty slot among the counted ones is read through
  \<open>NULL\<close>.\<close>

lemma schedule_faults:
  "schedule regs (sched3\<lparr>current_pid := 2147483647\<rparr>) = None"
  "schedule regs (sched3\<lparr>process_count := 4, current_pid := 2\<rparr>) = None"
  "\<not> wf_sched (sched3\<lparr>current_pid := 2147483647\<rparr>)"
  "\<not> wf_sched (sched3\<lparr>process_count := 4, current_pid := 2\<rparr>)"
  by (simp_all add: schedule_def save_current_def sched3_def c_rem_def s32_def Let_def
      wf_sched_def MAX_PROCESSES_def)

theorem schedule_round_robin_witness:
  "\<exists>sel s'. ticks [0x40102EE0, 0x40202EE0, 0x40302EE0, 0x40102EE0, 0x40202EE0, 0x40302EE0] sched3
       = Some (sel, s') \<and> length sel = 6 \<and>
     count_list sel 0x40100000 = 2 \<and> count_list sel 0x40200000 = 2 \<and>
     count_list sel 0x40300000 = 2"
proof -
  have d: "distinct (take 3 (process_pool sched3))"
    by (simp add: sched3_def)
  have p: "process_pool sched3 ! 0 = 0x40100000" "process_pool sched3 ! 1 = 0x40200000"
    "process_pool sched3 ! 2 = 0x40300000"
    by (simp_all add: sched3_def)
  have "\<exists>sel s'. ticks [0x40102EE0, 0x40202EE0, 0x40302EE0, 0x40102EE0, 0x40202EE0, 0x40302EE0] sched3
       = Some (sel, s') \<and> length sel = 3 * 2 \<and>
       (\<forall>i<3. count_list sel (process_pool sched3 ! i) = 2)"
    using schedule_round_robin [OF wf_sched3 _ d, of "[0x40102EE0, 0x40202EE0, 0x40302EE0, 0x40102EE0, 0x40202EE0, 0x40302EE0]" 2]
    by (simp add: sched3_def)
  then obtain sel s' where
    t: "ticks [0x40102EE0, 0x40202EE0, 0x40302EE0, 0x40102EE0, 0x40202EE0, 0x40302EE0] sched3 = Some (sel, s')"
      "length sel = 3 * 2" "\<forall>i<3. count_list sel (process_pool sched3 ! i) = 2"
    by blast
  from t(3) have "count_list sel (process_pool sched3 ! 0) = 2"
    "count_list sel (process_pool sched3 ! 1) = 2" "count_list sel (process_pool sched3 ! 2) = 2"
    by simp_all
  with t(1,2) p show ?thesis by simp
qed

text \<open>
  Claim C6, as the code has it.  When \<open>schedule(regs)\<close> is entered with a current
  process installed, on a process table as the kernel keeps it (\<open>wf_sched\<close>), that
  process's saved-frame pointer becomes \<open>regs\<close> and its state
  becomes \<open>PROC_RUNNING\<close> (the process states of the code are unused, created,
  running and zombie: there is no runnable state); no other process structure changes,
  and this happens before the next process is picked: the frame returned is read from
  the memory as it is after the update.
\<close>

theorem schedule_saves_frame:
  assumes "wf_sched s" and "current_process s \<noteq> 0"
  shows "\<exists>ctx s'. schedule regs s = Some (ctx, s') \<and>
     pcontext (procs s' (current_process s)) = regs \<and>
     state (procs s' (current_process s)) = PROC_RUNNING \<and>
     (\<forall>p. p \<noteq> current_process s \<longrightarrow> procs s' p = procs s p) \<and>
     procs s' = procs (save_current regs s) \<and>
     ctx = pcontext (procs (save_current regs s) (current_process s'))"
proof -
  obtain ctx s1 where s1: "schedule regs s = Some (ctx, s1)"
      "procs s1 = procs (save_current regs s)"
      "ctx = pcontext (procs s1 (current_process s1))"
    using schedule_step [OF assms(1), of regs] by blast
  have "pcontext (procs (save_current regs s) (current_process s)) = regs"
    "state (procs (save_current regs s) (current_process s)) = PROC_RUNNING"
    "\<forall>p. p \<noteq> current_process s \<longrightarrow> procs (save_current regs s) p = procs s p"
    using assms(2) by (simp_all add: save_current_def)
  with s1 show ?thesis by simp
qed

theorem schedule_saves_frame_witness:
  "\<exists>ctx s'. schedule 0x40102DC0 sched3 = Some (ctx, s') \<and>
     pcontext (procs s' 0x40100000) = 0x40102DC0 \<and>
     state (procs s' 0x40100000) = PROC_RUNNING \<and>
     procs s' 0x40200000 = procs sched3 0x40200000 \<and>
     ctx = 0x40202EE0"
proof -
  have c: "current_process sched3 \<noteq> 0" "current_process sched3 = 0x40100000"
    by (simp_all add: sched3_def)
  obtain ctx s' where r: "schedule 0x40102DC0 sched3 = Some (ctx, s')"
      "pcontext (procs s' (current_process sched3)) = 0x40102DC0"
      "state (procs s' (current_process sched3)) = PROC_RUNNING"
      "\<forall>p. p \<noteq> current_process sched3 \<longrightarrow> procs s' p = procs sched3 p"
    using schedule_saves_frame [OF wf_sched3 c(1), of "0x40102DC0"] by blast
  from r(4) c(2) have o: "procs s' 0x40200000 = procs sched3 0x40200000" by simp
  have "schedule 0x40102DC0 sched3 = Some (0x40202EE0, s') \<or> ctx = 0x40202EE0"
    using r(1) by (simp add: schedule_def save_current_def sched3_def c_rem_def s32_def Let_def
        virt_to_phys_def split: if_splits)
  with r c(2) o show ?thesis by auto
qed

text \<open>
  The claim as the specification states it asks for a runnable state that is not the
  running one.  A process preempted while running is left in state \<open>PROC_RUNNING\<close>.
\<close>

theorem schedule_state_counterexample:
  "\<exists>ctx s'. schedule 0x40102DC0 sched3 = Some (ctx, s') \<and>
     state (procs sched3 0x40100000) = PROC_RUNNING \<and>
     state (procs s' 0x40100000) = PROC_RUNNING \<and>
     current_process s' = 0x40200000 \<and>
     state (procs s' 0x40100000) \<notin> {PROC_UNUSED, PROC_CREATED, PROC_ZOMBIE}"
  by (simp add: schedule_def save_current_def sched3_def c_rem_def s32_def Let_def virt_to_phys_def
      PROC_RUNNING_def PROC_UNUSED_def PROC_CREATED_def PROC_ZOMBIE_def proc0_def)

section \<open>Physical page allocator: aligned allocation\<close>

lemma pmm_boot_fields:
  "zones pmm_boot ZONE_NORMAL = zone0\<lparr>start_pfn := 4096, end_pfn := 262144, z_free_pages := 258048\<rparr>"
  "zones pmm_boot ZONE_DMA = zone0\<lparr>end_pfn := 4096, z_free_pages := 4096\<rparr>"
  "total_pages pmm_boot = 262144" "free_pages pmm_boot = 262144"
  "page_array pmm_boot = (\<lambda>i. \<lparr>pg_flags = 0, refcount = 0\<rparr>)"
  by (simp_all add: pmm_boot_def ZONE_NORMAL_def ZONE_DMA_def)

lemma alloc_first_page:
  "zone_alloc_page ZONE_NORMAL pmm_boot =
     (0x41000000,
      pmm_boot\<lparr>zones := (zones pmm_boot)(ZONE_NORMAL :=
                 (zones pmm_boot ZONE_NORMAL)\<lparr>bitmap := (\<lambda>i. 0)(0 := 1), z_free_pages := 258047\<rparr>),
               page_array := (page_array pmm_boot)(4096 := \<lparr>pg_flags = 0, refcount = 1\<rparr>),
               free_pages := 262143\<rparr>)"
  by (simp add: zone_alloc_page_def Let_def pmm_boot_fields zone0_def bitmap_find_free.simps
      bitmap_test_def bitmap_set_def MEMORY_BASE_def pfn_to_phys_def PAGE_SHIFT_def word_sless_alt)

lemma free_first_page:
  assumes "zones s ZONE_NORMAL = z" "zones s ZONE_DMA = zone0\<lparr>end_pfn := 4096, z_free_pages := 4096\<rparr>"
    and "total_pages s = 262144" "page_array s 4096 = \<lparr>pg_flags = 0, refcount = 1\<rparr>"
  shows "pmm_free_page 0x41000000 s =
     s\<lparr>page_array := (page_array s)(4096 := \<lparr>pg_flags = 0, refcount = 0\<rparr>),
       zones := (zones s)(ZONE_NORMAL := z\<lparr>bitmap := bitmap_clear (bitmap z) 0,
                                              z_free_pages := z_free_pages z + 1\<rparr>),
       free_pages := free_pages s + 1\<rparr>"
  using assms
  by (simp add: pmm_free_page_def Let_def MEMORY_BASE_def phys_to_pfn_def PAGE_SHIFT_def
      PG_RESERVED_def zone0_def drop_bit_eq_div)

text \<open>
  Claim C8 says that a successful call keeps exactly the \<open>ceil(S / page)\<close> pages of the
  request.  The page count is computed as \<open>(size + PAGE_SIZE - 1) / PAGE_SIZE\<close> in 64
  bits, and the sum wraps for a size within a page of \<open>2^64\<close>.  On the freshly
  initialised allocator, \<open>pmm_alloc_aligned(2^64 - 1, 8192)\<close> computes no page for the
  request and one page in all: that page is allocated, found aligned, and freed again
  as the unused tail.  The call returns the address \<open>0x41000000\<close>, not \<open>NULL\<close>, and
  holds nothing: the page at that address is free (its bit is clear and its reference
  count is zero) and the zones and the counters are as before the call.  For a request
  of one page with the same alignment, two pages are taken, the second is given back and
  the first is held.
\<close>

theorem pmm_alloc_aligned_size_wraps:
  "fst (pmm_alloc_aligned 0xFFFFFFFFFFFFFFFF 8192 pmm_boot) = 0x41000000 \<and>
   zones (snd (pmm_alloc_aligned 0xFFFFFFFFFFFFFFFF 8192 pmm_boot)) = zones pmm_boot \<and>
   free_pages (snd (pmm_alloc_aligned 0xFFFFFFFFFFFFFFFF 8192 pmm_boot)) = free_pages pmm_boot \<and>
   refcount (page_array (snd (pmm_alloc_aligned 0xFFFFFFFFFFFFFFFF 8192 pmm_boot)) 4096) = 0 \<and>
   \<not> bitmap_test (bitmap (zones (snd (pmm_alloc_aligned 0xFFFFFFFFFFFFFFFF 8192 pmm_boot)) ZONE_NORMAL)) 0 \<and>
   start_pfn (zones pmm_boot ZONE_NORMAL) + 0 = phys_to_pfn (0x41000000 - MEMORY_BASE) \<and>
   fst (pmm_alloc_aligned 4096 8192 pmm_boot) = 0x41000000 \<and>
   bitmap_test (bitmap (zones (snd (pmm_alloc_aligned 4096 8192 pmm_boot)) ZONE_NORMAL)) 0 \<and>
   \<not> bitmap_test (bitmap (zones (snd (pmm_alloc_aligned 4096 8192 pmm_boot)) ZONE_NORMAL)) 1 \<and>
   free_pages (snd (pmm_alloc_aligned 4096 8192 pmm_boot)) = free_pages pmm_boot - 1"
proof -
  let ?s1 = "pmm_boot\<lparr>zones := (zones pmm_boot)(ZONE_NORMAL :=
                 (zones pmm_boot ZONE_NORMAL)\<lparr>bitmap := (\<lambda>i. 0)(0 := 1), z_free_pages := 258047\<rparr>),
               page_array := (page_array pmm_boot)(4096 := \<lparr>pg_flags = 0, refcount = 1\<rparr>),
               free_pages := 262143\<rparr>"
  have a1: "pmm_alloc_pages 1 pmm_boot = (0x41000000, ?s1)"
    by (simp add: pmm_alloc_pages_def pmm_alloc_page_def alloc_first_page)
  have f1: "pmm_free_page 0x41000000 ?s1 =
     ?s1\<lparr>page_array := (page_array ?s1)(4096 := \<lparr>pg_flags = 0, refcount = 0\<rparr>),
       zones := (zones ?s1)(ZONE_NORMAL := (zones ?s1 ZONE_NORMAL)\<lparr>
                  bitmap := bitmap_clear (bitmap (zones ?s1 ZONE_NORMAL)) 0,
                  z_free_pages := z_free_pages (zones ?s1 ZONE_NORMAL) + 1\<rparr>),
       free_pages := free_pages ?s1 + 1\<rparr>"
    by (rule free_first_page) (simp_all add: pmm_boot_def ZONE_NORMAL_def ZONE_DMA_def)
  have n: "\<not> (2 :: u64) \<le> 1" by (simp add: word_le_nat_alt)
  have w: "pmm_alloc_aligned 0xFFFFFFFFFFFFFFFF 8192 pmm_boot
      = (0x41000000, pmm_free_page 0x41000000 ?s1)"
    by (simp add: pmm_alloc_aligned_def Let_def PAGE_SIZE_def PAGE_SHIFT_def a1 pmm_free_pages_def n)
  have r1: "fst (pmm_alloc_aligned 0xFFFFFFFFFFFFFFFF 8192 pmm_boot) = 0x41000000"
    "free_pages (snd (pmm_alloc_aligned 0xFFFFFFFFFFFFFFFF 8192 pmm_boot)) = free_pages pmm_boot"
    "refcount (page_array (snd (pmm_alloc_aligned 0xFFFFFFFFFFFFFFFF 8192 pmm_boot)) 4096) = 0"
    unfolding w f1 by (simp_all add: pmm_boot_def)
  have z1: "zones (snd (pmm_alloc_aligned 0xFFFFFFFFFFFFFFFF 8192 pmm_boot)) = zones pmm_boot"
    unfolding w f1
    by (rule ext) (auto simp: pmm_boot_def ZONE_NORMAL_def ZONE_DMA_def zone0_def bitmap_clear_def)
  have b1: "\<not> bitmap_test (bitmap (zones pmm_boot ZONE_NORMAL)) 0"
    by (simp add: pmm_boot_fields zone0_def bitmap_test_def)
  have p1: "start_pfn (zones pmm_boot ZONE_NORMAL) + 0 = phys_to_pfn (0x41000000 - MEMORY_BASE)"
    by (simp add: pmm_boot_fields phys_to_pfn_def MEMORY_BASE_def PAGE_SHIFT_def drop_bit_eq_div)
  let ?s2 = "pmm_boot\<lparr>zones := (zones pmm_boot)(ZONE_NORMAL :=
                 (zones pmm_boot ZONE_NORMAL)\<lparr>bitmap := (\<lambda>i. 0)(0 := 3), z_free_pages := 258046\<rparr>),
               page_array := (page_array pmm_boot)(4096 := \<lparr>pg_flags = 0, refcount = 1\<rparr>,
                                                  4097 := \<lparr>pg_flags = 0, refcount = 1\<rparr>),
               free_pages := 262142\<rparr>"
  have a2: "pmm_alloc_pages 2 pmm_boot = (0x41000000, ?s2)"
    by (simp add: pmm_alloc_pages_def Let_def pmm_boot_fields zone0_def bitmap_find_contiguous_def
        find_contiguous_loop.simps bitmap_test_def bitmap_set_def MEMORY_BASE_def pfn_to_phys_def
        PAGE_SHIFT_def word_sless_alt upt_rec)
  have f2: "pmm_free_page 0x41001000 ?s2 =
     ?s2\<lparr>page_array := (page_array ?s2)(4097 := \<lparr>pg_flags = 0, refcount = 0\<rparr>),
       zones := (zones ?s2)(ZONE_NORMAL := (zones ?s2 ZONE_NORMAL)\<lparr>
                  bitmap := (\<lambda>i. 0)(0 := 1), z_free_pages := 258047\<rparr>),
       free_pages := 262143\<rparr>"
    by (simp add: pmm_free_page_def Let_def MEMORY_BASE_def phys_to_pfn_def PAGE_SHIFT_def
        PG_RESERVED_def zone0_def drop_bit_eq_div pmm_boot_def ZONE_NORMAL_def ZONE_DMA_def
        bitmap_clear_def)
  have w2: "pmm_alloc_aligned 4096 8192 pmm_boot = (0x41000000, pmm_free_page 0x41001000 ?s2)"
    by (simp add: pmm_alloc_aligned_def Let_def PAGE_SIZE_def PAGE_SHIFT_def a2 pmm_free_pages_def n)
  have r2: "fst (pmm_alloc_aligned 4096 8192 pmm_boot) = 0x41000000"
    "bitmap_test (bitmap (zones (snd (pmm_alloc_aligned 4096 8192 pmm_boot)) ZONE_NORMAL)) 0"
    "\<not> bitmap_test (bitmap (zones (snd (pmm_alloc_aligned 4096 8192 pmm_boot)) ZONE_NORMAL)) 1"
    "free_pages (snd (pmm_alloc_aligned 4096 8192 pmm_boot)) = free_pages pmm_boot - 1"
    unfolding w2 f2 by (simp_all add: bitmap_test_def pmm_boot_def)
  show ?thesis
    using r1 z1 b1 p1 r2 by simp
qed

section \<open>Kernel heap: freeing a block twice\<close>

text \<open>
  Claim C10.  Let \<open>p\<close> be a live allocation: not \<open>NULL\<close>, with the magic word
  \<open>BLOCK_MAGIC\<close> in its header.  The first \<open>kfree(p)\<close> overwrites the magic word and
  puts the block at the head of the free list, in front of the old head.  The second
  \<open>kfree(p)\<close> fails the check of the magic word: it logs one error and changes
  nothing else, so the free list and the block stay as the first call left them.
\<close>

theorem kfree_twice:
  assumes "p \<noteq> 0" and "magic (hdr s (p - HDR_SIZE)) = BLOCK_MAGIC"
  shows "magic (hdr (kfree p s) (p - HDR_SIZE)) = BLOCK_FREED \<and>
         bnext (hdr (kfree p s) (p - HDR_SIZE)) = free_list s \<and>
         free_list (kfree p s) = p - HDR_SIZE \<and>
         klog (kfree p s) = klog s \<and>
         kfree p (kfree p s) = printk ERR (KfreeInvalidBlock p BLOCK_FREED) (kfree p s) \<and>
         free_list (kfree p (kfree p s)) = free_list (kfree p s) \<and>
         hdr (kfree p (kfree p s)) = hdr (kfree p s) \<and>
         klog (kfree p (kfree p s)) = klog s @ [(ERR, KfreeInvalidBlock p BLOCK_FREED)]"
proof -
  let ?s1 = "kfree p s"
  have s1: "?s1 = s\<lparr>hdr := (hdr s)(p - HDR_SIZE :=
        (hdr s (p - HDR_SIZE))\<lparr>magic := BLOCK_FREED, bnext := free_list s\<rparr>),
      free_list := p - HDR_SIZE\<rparr>"
    using assms by (simp add: kfree_def Let_def)
  have m: "magic (hdr ?s1 (p - HDR_SIZE)) = BLOCK_FREED" by (simp add: s1)
  have ne: "BLOCK_FREED \<noteq> BLOCK_MAGIC" by (simp add: BLOCK_FREED_def BLOCK_MAGIC_def)
  have s2: "kfree p ?s1 = printk ERR (KfreeInvalidBlock p BLOCK_FREED) ?s1"
    using assms(1) m ne by (simp add: kfree_def [of p "kfree p s"] Let_def)
  show ?thesis
    unfolding s2 using m by (simp add: printk_def) (simp add: s1)
qed

theorem kfree_twice_witness:
  "(0x40500020 :: addr) \<noteq> 0 \<and> magic (hdr heap1 (0x40500020 - HDR_SIZE)) = BLOCK_MAGIC \<and>
   magic (hdr (kfree 0x40500020 heap1) 0x40500000) = BLOCK_FREED \<and>
   free_list (kfree 0x40500020 heap1) = 0x40500000 \<and>
   free_list (kfree 0x40500020 (kfree 0x40500020 heap1)) = 0x40500000 \<and>
   hdr (kfree 0x40500020 (kfree 0x40500020 heap1)) = hdr (kfree 0x40500020 heap1) \<and>
   klog (kfree 0x40500020 (kfree 0x40500020 heap1))
     = [(ERR, KfreeInvalidBlock 0x40500020 BLOCK_FREED)]"
proof -
  have a: "(0x40500020 :: addr) \<noteq> 0" by simp
  have h: "(0x40500020 :: addr) - HDR_SIZE = 0x40500000" by (simp add: HDR_SIZE_def)
  have b: "magic (hdr heap1 (0x40500020 - HDR_SIZE)) = BLOCK_MAGIC"
    unfolding h by (simp add: heap1_def)
  have l: "klog heap1 = []"
    by (simp add: heap1_def)
  show ?thesis using kfree_twice [OF a b] a b l unfolding h by (simp add: printk_def)
qed

section \<open>Page-table leaves: write permission and user execution\<close>

lemma pte_valid_bit: "pte_valid e \<longleftrightarrow> bit e 0"
  using and_exp_eq_0_iff_not_bit [of e 0] by (simp add: pte_valid_def PTE_VALID_def)

lemma el1_writable_bit: "el1_writable e \<longleftrightarrow> \<not> bit e 7"
proof -
  have "PTE_AP_EL1_RO = 2 ^ 7" by (simp add: PTE_AP_EL1_RO_def push_bit_eq_mult)
  then show ?thesis using and_exp_eq_0_iff_not_bit [of e 7] by (simp add: el1_writable_def)
qed

lemma pte_uxn_bit: "pte_uxn e \<longleftrightarrow> bit e 54"
  using and_exp_eq_0_iff_not_bit [of e 54] by (simp add: pte_uxn_def PTE_UXN_def push_bit_of_1)

lemmas pte_flag_defs = PAGE_USER_def PAGE_KERNEL_def PAGE_DEVICE_def PTE_VALID_def PTE_PAGE_def
  PTE_ATTR_INDX_def PTE_ATTR_NORMAL_def PTE_ATTR_DEVICE_def PTE_INNER_SHARE_def PTE_AF_def
  PTE_AP_EL0_RW_def PTE_AP_EL1_RW_def PTE_PXN_def PTE_UXN_def PTE_RW_def PTE_RO_def

lemma page_flag_bits:
  "bit PAGE_USER 0" "\<not> bit PAGE_USER 7" "\<not> bit PAGE_USER 54"
  "bit PAGE_KERNEL 54" "bit PAGE_DEVICE 54"
  by (simp_all add: pte_flag_defs bit_simps)

lemma elf_segment_flag_bits:
  "bit (elf_segment_flags pf_w pf_x p_flags) 0"
  "bit (elf_segment_flags pf_w pf_x p_flags) 7 \<longleftrightarrow> p_flags AND pf_w = 0"
  "bit (elf_segment_flags pf_w pf_x p_flags) 54 \<longleftrightarrow> p_flags AND pf_x = 0"
  by (simp_all add: elf_segment_flags_def Let_def pte_flag_defs bit_simps)

lemma frame_address_bits:
  assumes "frame_address a"
  shows "\<not> bit a 0" "\<not> bit a 7" "\<not> bit a 54"
proof -
  have z: "\<not> bit (a AND 0xFFFF000000000FFF) n" for n
    using assms by (simp add: frame_address_def)
  show "\<not> bit a 0" using z [of 0] by (simp add: bit_simps)
  show "\<not> bit a 7" using z [of 7] by (simp add: bit_simps)
  show "\<not> bit a 54" using z [of 54] by (simp add: bit_simps)
qed

text \<open>
  Claim C3, as the code has it.  Every leaf of the initial kernel map carries the
  user-execute-never bit, and so does every leaf of an ELF segment without the execute
  flag.  A leaf of an ELF segment is writable at EL1 exactly when the segment has the
  write flag, and it carries the bit exactly when the segment lacks the execute flag: a
  writable and executable segment is mapped writable at EL1 and executable by the user.
  The leaves of the user stack are mapped with \<open>PAGE_USER\<close>: valid, writable at EL1,
  and without the bit.
\<close>

theorem leaf_permissions:
  "pte_uxn (kernel_ram_leaf a) \<and> pte_uxn (kernel_mmio_leaf a) \<and>
   (p_flags AND pf_x = 0 \<longrightarrow> pte_uxn (elf_segment_leaf pf_w pf_x p_flags paddr)) \<and>
   (frame_address paddr \<longrightarrow>
      pte_valid (elf_segment_leaf pf_w pf_x p_flags paddr) \<and>
      (el1_writable (elf_segment_leaf pf_w pf_x p_flags paddr) \<longleftrightarrow> p_flags AND pf_w \<noteq> 0) \<and>
      (pte_uxn (elf_segment_leaf pf_w pf_x p_flags paddr) \<longleftrightarrow> p_flags AND pf_x = 0) \<and>
      pte_valid (user_stack_leaf paddr) \<and> el1_writable (user_stack_leaf paddr) \<and>
      \<not> pte_uxn (user_stack_leaf paddr))"
proof (intro conjI impI)
  show "pte_uxn (kernel_ram_leaf a)"
    by (simp add: pte_uxn_bit kernel_ram_leaf_def leaf_pte_def bit_or_iff page_flag_bits)
  show "pte_uxn (kernel_mmio_leaf a)"
    by (simp add: pte_uxn_bit kernel_mmio_leaf_def leaf_pte_def bit_or_iff page_flag_bits)
  show "pte_uxn (elf_segment_leaf pf_w pf_x p_flags paddr)" if "p_flags AND pf_x = 0"
    using that
    by (simp add: pte_uxn_bit elf_segment_leaf_def leaf_pte_def bit_or_iff elf_segment_flag_bits)
next
  assume f: "frame_address paddr"
  note b = frame_address_bits [OF f]
  show "pte_valid (elf_segment_leaf pf_w pf_x p_flags paddr)"
    by (simp add: pte_valid_bit elf_segment_leaf_def leaf_pte_def bit_or_iff elf_segment_flag_bits)
  show "el1_writable (elf_segment_leaf pf_w pf_x p_flags paddr) \<longleftrightarrow> p_flags AND pf_w \<noteq> 0"
    using b
    by (simp add: el1_writable_bit elf_segment_leaf_def leaf_pte_def bit_or_iff elf_segment_flag_bits)
  show "pte_uxn (elf_segment_leaf pf_w pf_x p_flags paddr) \<longleftrightarrow> p_flags AND pf_x = 0"
    using b
    by (simp add: pte_uxn_bit elf_segment_leaf_def leaf_pte_def bit_or_iff elf_segment_flag_bits)
  show "pte_valid (user_stack_leaf paddr)"
    by (simp add: pte_valid_bit user_stack_leaf_def leaf_pte_def bit_or_iff page_flag_bits)
  show "el1_writable (user_stack_leaf paddr)"
    using b by (simp add: el1_writable_bit user_stack_leaf_def leaf_pte_def bit_or_iff page_flag_bits)
  show "\<not> pte_uxn (user_stack_leaf paddr)"
    using b by (simp add: pte_uxn_bit user_stack_leaf_def leaf_pte_def bit_or_iff page_flag_bits)
qed

text \<open>An instance: a read-only data segment (flags \<open>PF_R\<close>), a writable and executable
  segment (flags \<open>PF_R | PF_W | PF_X\<close>) and a stack page, all in the frame at
  \<open>0x40A00000\<close>.\<close>

theorem leaf_permissions_witness:
  "(4 :: u32) AND 1 = 0 \<and> frame_address 0x40A00000 \<and>
   pte_uxn (kernel_ram_leaf 0x40A00000) \<and>
   pte_uxn (elf_segment_leaf 2 1 4 0x40A00000) \<and>
   el1_writable (elf_segment_leaf 2 1 7 0x40A00000) \<and>
   \<not> pte_uxn (elf_segment_leaf 2 1 7 0x40A00000) \<and>
   \<not> pte_uxn (user_stack_leaf 0x40A00000)"
proof -
  have f: "frame_address 0x40A00000" by (simp add: frame_address_def)
  have x: "(4 :: u32) AND 1 = 0" "(7 :: u32) AND 2 \<noteq> 0" "(7 :: u32) AND 1 \<noteq> 0" by simp_all
  show ?thesis
    using leaf_permissions [of "0x40A00000" 4 1 2 "0x40A00000"]
      leaf_permissions [of "0x40A00000" 7 1 2 "0x40A00000"] f x
    by simp
qed

text \<open>
  The claim as the specification states it fails on the first page of any user stack:
  the leaf is valid and writable at EL1, and user mode may execute the page.
\<close>

theorem user_stack_leaf_counterexample:
  "pte_valid (user_stack_leaf 0x40A00000) \<and> el1_writable (user_stack_leaf 0x40A00000) \<and>
   \<not> pte_uxn (user_stack_leaf 0x40A00000)"
proof -
  have f: "frame_address 0x40A00000" by (simp add: frame_address_def)
  note b = frame_address_bits [OF f]
  show ?thesis
    using b by (simp add: pte_valid_bit el1_writable_bit pte_uxn_bit user_stack_leaf_def
        leaf_pte_def bit_or_iff page_flag_bits)
qed

section \<open>VirtIO block driver: when the used index is sampled\<close>

lemma busy_wait_idle_stuck:
  "used_idx s = w \<Longrightarrow> busy_wait idle_device fuel w s = None"
  by (induction fuel arbitrary: s) (simp_all add: idle_device_def)

text \<open>
  Claim C2 asks for \<open>used->idx\<close> to be sampled before the request is submitted.  The
  code samples it after the store to the notify register: the value the busy-wait
  compares with is the index as the device has left it by then.  So for any initialised
  driver state, whatever the device does during the notify, the trace of a read up to
  the sample ends with the notify followed by the sample; and with a device that
  completes the request during the notify and then rests, neither \<open>virtio_blk_read\<close>
  nor \<open>virtio_blk_write\<close> returns, however long the wait, although the request has
  completed with status \<open>VIRTIO_BLK_S_OK\<close>.  (With a device that completes the
  request only after the sample, the read returns 0 at the next look.)
\<close>

theorem virtio_blk_samples_after_notify:
  "(\<forall>fuel. virtio_blk_read fast_device idle_device fuel 0x40700000 0 1 blk_ready = None) \<and>
   (\<forall>fuel. virtio_blk_write fast_device idle_device fuel 0x40700000 0 1 blk_ready = None) \<and>
   (\<exists>s'. virtio_blk_read idle_device fast_device 1 0x40700000 0 1 blk_ready = Some (0, s'))"
  by (simp add: virtio_blk_read_def virtio_blk_write_def blk_ready_def Let_def fast_device_def
      busy_wait_idle_stuck idle_device_def VRING_DESC_F_NEXT_def VRING_DESC_F_WRITE_def
      VIRTIO_BLK_S_OK_def)

section \<open>Compositor: pixel memory\<close>

lemma store32_other: "4 \<le> b - a \<Longrightarrow> store32 a v m b = m b"
  by (simp add: store32_def leD)

lemma store32_bytes:
  "store32 a v m a = ucast v" "store32 a v m (a + 1) = ucast (drop_bit 8 v)"
  "store32 a v m (a + 2) = ucast (drop_bit 16 v)" "store32 a v m (a + 3) = ucast (drop_bit 24 v)"
  by (simp_all add: store32_def)

lemma load32_store32: "load32 (store32 a v m) a = v"
  unfolding load32_def store32_bytes
proof (rule bit_eqI)
  fix n assume "possible_bit TYPE(32 word) n"
  then have n: "n < 32" by (simp add: possible_bit_def)
  consider "n < 8" | "8 \<le> n" "n < 16" | "16 \<le> n" "n < 24" | "24 \<le> n" "n < 32"
    using n by linarith
  then show "bit (ucast (ucast v :: u8) OR push_bit 8 (ucast (ucast (drop_bit 8 v) :: u8)) OR
     push_bit 16 (ucast (ucast (drop_bit 16 v) :: u8)) OR
     push_bit 24 (ucast (ucast (drop_bit 24 v) :: u8)) :: u32) n = bit v n"
    by cases (auto simp: bit_simps)
qed

lemma draw_rect_slot_irq [simp]:
  "draw_rect_slot (local_irq_disable s) window_id = draw_rect_slot s window_id"
  by (simp add: draw_rect_slot_def local_irq_disable_def)

lemma comp1_slot: "draw_rect_slot comp1 1 = Some 0"
  by (simp add: draw_rect_slot_def comp1_def window1_def window0_def MAX_WINDOWS_def upt_rec)


section \<open>Compositor: window creation and the interrupt mask\<close>

lemma slots_list: "[0..<MAX_WINDOWS] = [0, 1, 2, 3, 4, 5, 6, 7, 8, 9, 10, 11, 12, 13, 14, 15]"
  by (simp add: MAX_WINDOWS_def upt_rec)

lemma kmalloc_zero: "heap_initialized s \<noteq> 0 \<Longrightarrow> kmalloc 0 s = Some (0, s)"
  by (simp add: kmalloc_def)

lemma kmalloc_out_of_memory:
  assumes "heap_initialized s \<noteq> 0" "sz \<noteq> 0" "free_list s = 0"
    and "heap_end s < heap_ptr s + (((sz + 15) AND NOT 15) + HDR_SIZE)"
  shows "kmalloc sz s = Some (0, printk ERR KmallocOutOfMemory s)"
  using assms by (simp add: kmalloc_def Let_def free_list_walk.simps)

lemma comp1_create_slot:
  "create_window_slot (local_irq_disable comp1) = Some 1"
  by (simp add: create_window_slot_def slots_list local_irq_disable_def comp1_def window1_def
      window0_def)

lemma comp1_heap:
  "heap_initialized (local_irq_disable comp1) \<noteq> 0" "free_list (local_irq_disable comp1) = 0"
  "heap_end (local_irq_disable comp1) = 0x40D00000" "heap_ptr (local_irq_disable comp1) = 0x40501040"
  "window_count (local_irq_disable comp1) = 1" "klog (local_irq_disable comp1) = []"
  "daif (local_irq_disable comp1) = 2" "windows (local_irq_disable comp1) = windows comp1"
  by (simp_all add: local_irq_disable_def comp1_def)

text \<open>
  Claim C7 says that every return path of \<open>compositor_create_window\<close> unmasks
  interrupts.  The path taken when \<open>kmalloc\<close> returns \<open>NULL\<close> does not: it returns
  \<open>-1\<close> with interrupts still masked.  A request for a window of no pixels takes that
  path (\<open>kmalloc(0)\<close> is \<open>NULL\<close>), as does any request the heap cannot serve.  The path
  taken when the table is full does unmask them.
\<close>

theorem create_window_alloc_failure_leaves_irqs_masked:
  "\<not> irqs_masked comp1 \<and>
   (\<exists>s'. compositor_create_window 10 10 0 0 [119, 0] 3 comp1 = Some (- 1, s') \<and>
      irqs_masked s' \<and> klog s' = [(ERR, CompositorAllocFailed)] \<and> windows s' = windows comp1) \<and>
   (\<exists>s'. compositor_create_window 10 10 4096 4096 [119, 0] 3 comp1 = Some (- 1, s') \<and>
      irqs_masked s' \<and> klog s' = [(ERR, KmallocOutOfMemory), (ERR, CompositorAllocFailed)]) \<and>
   (\<exists>s'. compositor_create_window 10 10 64 64 [119, 0] 3 (comp1\<lparr>window_count := 16\<rparr>) = Some (- 1, s') \<and>
      \<not> irqs_masked s' \<and> klog s' = [(ERR, CompositorMaxWindows)])"
proof (intro conjI)
  show "\<not> irqs_masked comp1" by (simp add: irqs_masked_def comp1_def)
  have "compositor_create_window 10 10 0 0 [119, 0] 3 comp1
      = Some (- 1, printk ERR CompositorAllocFailed (local_irq_disable comp1))"
    by (simp add: compositor_create_window_def Let_def comp1_create_slot comp1_heap
        MAX_WINDOWS_def s32_def kmalloc_zero)
  then show "\<exists>s'. compositor_create_window 10 10 0 0 [119, 0] 3 comp1 = Some (- 1, s') \<and>
      irqs_masked s' \<and> klog s' = [(ERR, CompositorAllocFailed)] \<and> windows s' = windows comp1"
    by (simp add: printk_def irqs_masked_def comp1_heap bit_simps)
  have big: "kmalloc 0x4000000 (local_irq_disable comp1)
      = Some (0, printk ERR KmallocOutOfMemory (local_irq_disable comp1))"
    by (rule kmalloc_out_of_memory) (simp_all add: comp1_heap HDR_SIZE_def)
  have "compositor_create_window 10 10 4096 4096 [119, 0] 3 comp1
      = Some (- 1, printk ERR CompositorAllocFailed
                     (printk ERR KmallocOutOfMemory (local_irq_disable comp1)))"
    by (simp add: compositor_create_window_def Let_def comp1_create_slot comp1_heap
        MAX_WINDOWS_def s32_def big)
  then show "\<exists>s'. compositor_create_window 10 10 4096 4096 [119, 0] 3 comp1 = Some (- 1, s') \<and>
      irqs_masked s' \<and> klog s' = [(ERR, KmallocOutOfMemory), (ERR, CompositorAllocFailed)]"
    by (simp add: printk_def irqs_masked_def comp1_heap bit_simps)
  show "\<exists>s'. compositor_create_window 10 10 64 64 [119, 0] 3 (comp1\<lparr>window_count := 16\<rparr>) = Some (- 1, s') \<and>
      \<not> irqs_masked s' \<and> klog s' = [(ERR, CompositorMaxWindows)]"
    by (simp add: compositor_create_window_def Let_def MAX_WINDOWS_def local_irq_disable_def
        local_irq_enable_def printk_def irqs_masked_def comp1_def bit_simps)
qed

section \<open>Compositor: drawing into a window\<close>

lemma kmalloc_fresh:
  assumes "heap_initialized s \<noteq> 0" "sz \<noteq> 0" "free_list s = 0"
    and "\<not> heap_end s < heap_ptr s + (((sz + 15) AND NOT 15) + HDR_SIZE)"
  shows "kmalloc sz s = Some (heap_ptr s + HDR_SIZE,
     s\<lparr>hdr := (hdr s)(heap_ptr s := (hdr s (heap_ptr s))\<lparr>magic := BLOCK_MAGIC,
             bsize := ucast (((sz + 15) AND NOT 15) + HDR_SIZE), bnext := 0\<rparr>),
       heap_ptr := heap_ptr s + (((sz + 15) AND NOT 15) + HDR_SIZE)\<rparr>)"
  using assms by (simp add: kmalloc_def Let_def free_list_walk.simps)

lemma comp1_large_window:
  "\<exists>s1. compositor_create_window 10 10 65536 65537 [119, 0] 3 comp1 = Some (2, s1) \<and>
     windows s1 = (windows comp1)(1 := window0\<lparr>win_id := 2, w_x := 10, w_y := 10,
       width := 65536, height := 65537, z_order := 1, visible := 1, w_pid := 3,
       buffer := 0x40501060, bg_color := 0xFF17171A, title := [119], fg_color := 0xFFFFFFFF\<rparr>) \<and>
     klog s1 = [(INFO, CompositorCreated [119] 65536 65537 10 10)] \<and>
     heap_ptr s1 = 0x40541060"
proof -
  have km: "kmalloc 262144 (local_irq_disable comp1) = Some (0x40501060,
     (local_irq_disable comp1)\<lparr>hdr := (hdr (local_irq_disable comp1))(0x40501040 :=
         (hdr (local_irq_disable comp1) 0x40501040)\<lparr>magic := BLOCK_MAGIC, bsize := 262176, bnext := 0\<rparr>),
       heap_ptr := 0x40541060\<rparr>)"
    using kmalloc_fresh [of "local_irq_disable comp1" 262144]
    by (simp add: comp1_heap HDR_SIZE_def)
  show ?thesis
    by (simp add: compositor_create_window_def Let_def comp1_create_slot comp1_heap
        MAX_WINDOWS_def s32_def km)
      (simp add: local_irq_enable_def local_irq_disable_def printk_def comp1_def window0_def
        fun_upd_def)
qed

lemma draw_rect_one:
  "draw_rect_fill win x y 1 1 color px = draw_rect_pixel win x y color 0 0 px"
  by (simp add: draw_rect_fill_def upto.simps)

text \<open>
  Claim C4 says that a call which passes the ownership check fills the requested
  rectangle, clipped to the window.  The index \<open>py * width + px\<close> of a pixel is
  computed in \<open>int\<close>, and neither \<open>compositor_create_window\<close> nor the system call
  bounds \<open>w * h\<close>.  Process 3 creates a window of 65536 by 65537 pixels: the product
  wraps, and the buffer it gets holds 65536 pixels.  When it then draws the pixel
  \<open>(5, 65536)\<close> of its window, the index wraps to 5: the call has the effect of
  drawing the pixel \<open>(5, 0)\<close>, whose cell \<open>buffer[5]\<close> takes the colour, and the
  cell of the pixel asked for, \<open>buffer[65536 * 65536 + 5]\<close>, keeps its value.  A
  caller that is neither the owner nor process 1 is refused as the claim says: one
  warning is logged and the memory is unchanged.
\<close>

theorem draw_rect_pixel_index_wraps:
  "\<exists>s1. compositor_create_window 10 10 65536 65537 [119, 0] 3 comp1 = Some (2, s1) \<and>
     win_id (windows s1 1) = 2 \<and> w_pid (windows s1 1) = 3 \<and>
     width (windows s1 1) = 65536 \<and> height (windows s1 1) = 65537 \<and>
     buffer (windows s1 1) = 0x40501060 \<and> heap_ptr s1 = 0x40501060 + 4 * 65536 \<and>
     pixels (compositor_draw_rect 2 5 65536 1 1 0xFFFF0000 3 s1)
       = store32 (elem32 0x40501060 (0 * 65536 + 5)) 0xFFFF0000 (pixels s1) \<and>
     pixels (compositor_draw_rect 2 5 65536 1 1 0xFFFF0000 3 s1)
       = pixels (compositor_draw_rect 2 5 0 1 1 0xFFFF0000 3 s1) \<and>
     load32 (pixels (compositor_draw_rect 2 5 65536 1 1 0xFFFF0000 3 s1))
         (elem32 0x40501060 (0 * 65536 + 5)) = 0xFFFF0000 \<and>
     load32 (pixels (compositor_draw_rect 2 5 65536 1 1 0xFFFF0000 3 s1))
         (elem32 0x40501060 (65536 * 65536 + 5))
       = load32 (pixels s1) (elem32 0x40501060 (65536 * 65536 + 5)) \<and>
     elem32 0x40501060 (0 * 65536 + 5) = 0x40501074 \<and>
     elem32 0x40501060 (65536 * 65536 + 5) = 0x440501074 \<and>
     pixels (compositor_draw_rect 2 5 65536 1 1 0xFFFF0000 4 s1) = pixels s1 \<and>
     klog (compositor_draw_rect 2 5 65536 1 1 0xFFFF0000 4 s1)
       = klog s1 @ [(WARN, CompositorDrawDenied 4 2 3)]"
proof -
  obtain s1 where c: "compositor_create_window 10 10 65536 65537 [119, 0] 3 comp1 = Some (2, s1)"
    and w: "windows s1 = (windows comp1)(1 := window0\<lparr>win_id := 2, w_x := 10, w_y := 10,
       width := 65536, height := 65537, z_order := 1, visible := 1, w_pid := 3,
       buffer := 0x40501060, bg_color := 0xFF17171A, title := [119], fg_color := 0xFFFFFFFF\<rparr>)"
    and h: "heap_ptr s1 = 0x40541060"
    using comp1_large_window by blast
  have f: "win_id (windows s1 1) = 2" "w_pid (windows s1 1) = 3" "width (windows s1 1) = 65536"
    "height (windows s1 1) = 65537" "buffer (windows s1 1) = 0x40501060"
    by (simp_all add: w)
  have g: "win_id (windows s1 (Suc 0)) = 2" "w_pid (windows s1 (Suc 0)) = 3"
    "width (windows s1 (Suc 0)) = 65536" "height (windows s1 (Suc 0)) = 65537"
    "buffer (windows s1 (Suc 0)) = 0x40501060"
    using f by simp_all
  have slot: "draw_rect_slot s1 2 = Some 1"
    by (simp add: draw_rect_slot_def slots_list w comp1_def window1_def window0_def)
  have own: "pixels (compositor_draw_rect 2 x y 1 1 color 3 s1)
      = draw_rect_pixel (windows s1 1) x y color 0 0 (pixels s1)" for x y color
    by (simp add: compositor_draw_rect_def Let_def slot g draw_rect_one)
      (simp add: local_irq_enable_def local_irq_disable_def g)
  have far: "pixels (compositor_draw_rect 2 5 65536 1 1 0xFFFF0000 3 s1)
      = store32 (elem32 0x40501060 (0 * 65536 + 5)) 0xFFFF0000 (pixels s1)"
    by (simp add: own draw_rect_pixel_def Let_def g s32_def)
  have near: "pixels (compositor_draw_rect 2 5 0 1 1 0xFFFF0000 3 s1)
      = store32 (elem32 0x40501060 (0 * 65536 + 5)) 0xFFFF0000 (pixels s1)"
    by (simp add: own draw_rect_pixel_def Let_def g s32_def)
  have cell: "elem32 0x40501060 (0 * 65536 + 5) = 0x40501074"
    "elem32 0x40501060 (65536 * 65536 + 5) = 0x440501074"
    by (simp_all add: elem32_def)
  have same: "load32 (store32 (elem32 0x40501060 (0 * 65536 + 5)) 0xFFFF0000 (pixels s1))
        (elem32 0x40501060 (65536 * 65536 + 5))
      = load32 (pixels s1) (elem32 0x40501060 (65536 * 65536 + 5))"
    unfolding cell by (simp add: load32_def store32_def)
  have den: "compositor_draw_rect 2 5 65536 1 1 0xFFFF0000 4 s1
      = local_irq_enable (printk WARN (CompositorDrawDenied 4 2 3) (local_irq_disable s1))"
    by (simp add: compositor_draw_rect_def Let_def slot g)
      (simp add: local_irq_disable_def g)
  have d: "pixels (compositor_draw_rect 2 5 65536 1 1 0xFFFF0000 4 s1) = pixels s1"
    "klog (compositor_draw_rect 2 5 65536 1 1 0xFFFF0000 4 s1)
       = klog s1 @ [(WARN, CompositorDrawDenied 4 2 3)]"
    by (simp_all add: den local_irq_enable_def local_irq_disable_def printk_def)
  show ?thesis
    using c f h far near cell same d load32_store32
    by (intro exI [of _ s1]) simp
qed

section \<open>The window terminal: escape sequences\<close>

lemma put_window_fields [simp]:
  "windows (put_window i win s) = (windows s)(i := win)"
  "pixels (put_window i win s) = pixels s"
  "klog (put_window i win s) = klog s"
  "daif (put_window i win s) = daif s"
  "renders (put_window i win s) = renders s"
  by (simp_all add: put_window_def)



lemma s32_small [simp]:
  "s32 0 = 0" "s32 1 = 1" "s32 2 = 2" "s32 8 = 8" "s32 16 = 16"
  by (simp_all add: s32_def)





lemma handle_sgr_fields [simp]:
  "escape_len (handle_sgr win) = escape_len win" "escape_buf (handle_sgr win) = escape_buf win"
  "cursor_x (handle_sgr win) = cursor_x win" "cursor_y (handle_sgr win) = cursor_y win"
  "escape_state (handle_sgr win) = escape_state win" "buffer (handle_sgr win) = buffer win"
  "width (handle_sgr win) = width win" "height (handle_sgr win) = height win"
  "win_id (handle_sgr win) = win_id win" "w_pid (handle_sgr win) = w_pid win"
  "bg_color (handle_sgr win) = bg_color win"
  by (simp_all add: handle_sgr_def Let_def)



lemma find_upt_None_iff: "find P [0..<n] = None \<longleftrightarrow> (\<forall>j<n. \<not> P j)"
  by (auto simp: find_None_iff)






lemma escape_normal_lf:
  "escape_state (windows s i) = 0 \<Longrightarrow>
   window_escape dc wid i LF s
     = put_window i ((windows s i)\<lparr>cursor_x := 0, cursor_y := s32 (cursor_y (windows s i) + 1)\<rparr>) s"
  by (simp add: window_escape_def Let_def LF_def ESC_def)

lemma put_window_collapse [simp]:
  "put_window i w (put_window i w' s) = put_window i w s"
  "(put_window i w s)\<lparr>daif := d\<rparr> = put_window i w (s\<lparr>daif := d\<rparr>)"
  "(put_window i w s)\<lparr>pixels := p\<rparr> = put_window i w (s\<lparr>pixels := p\<rparr>)"
  by (simp_all add: put_window_def)

lemma draw_rect_slot_updates [simp]:
  "draw_rect_slot (s\<lparr>daif := d\<rparr>) wid = draw_rect_slot s wid"
  "draw_rect_slot (s\<lparr>pixels := p\<rparr>) wid = draw_rect_slot s wid"
  by (simp_all add: draw_rect_slot_def)








lemma write_slot_irq [simp]:
  "write_slot (local_irq_disable s) wid = write_slot s wid"
  "windows (local_irq_disable s) = windows s" "pixels (local_irq_disable s) = pixels s"
  "klog (local_irq_disable s) = klog s" "daif (local_irq_disable s) = daif s OR 2"
  "renders (local_irq_disable s) = renders s"
  by (simp_all add: write_slot_def local_irq_disable_def)



lemma after_render_fields [simp]:
  "windows (local_irq_enable (compositor_render s)) = windows s"
  "pixels (local_irq_enable (compositor_render s)) = pixels s"
  "klog (local_irq_enable (compositor_render s)) = klog s"
  by (simp_all add: local_irq_enable_def compositor_render_def)










section \<open>The write system call\<close>

lemma comp1_short_window:
  "\<exists>s1. compositor_create_window 300 100 100 10 [115, 0] 3 comp1 = Some (2, s1) \<and>
     windows s1 = (windows comp1)(1 := window0\<lparr>win_id := 2, w_x := 300, w_y := 100,
       width := 100, height := 10, z_order := 1, visible := 1, w_pid := 3,
       buffer := 0x40501060, bg_color := 0xFF17171A, title := [115], fg_color := 0xFFFFFFFF\<rparr>) \<and>
     klog s1 = [(INFO, CompositorCreated [115] 100 10 300 100)]"
proof -
  have km: "kmalloc 4000 (local_irq_disable comp1) = Some (0x40501060,
     (local_irq_disable comp1)\<lparr>hdr := (hdr (local_irq_disable comp1))(0x40501040 :=
         (hdr (local_irq_disable comp1) 0x40501040)\<lparr>magic := BLOCK_MAGIC, bsize := 4032, bnext := 0\<rparr>),
       heap_ptr := 0x40502000\<rparr>)"
    using kmalloc_fresh [of "local_irq_disable comp1" 4000]
    by (simp add: comp1_heap HDR_SIZE_def)
  show ?thesis
    by (simp add: compositor_create_window_def Let_def comp1_create_slot comp1_heap
        MAX_WINDOWS_def s32_def km)
      (simp add: local_irq_enable_def local_irq_disable_def printk_def comp1_def window0_def
        fun_upd_def)
qed

lemma caller_pids: "caller_pid_of sched_p3 = 3" "caller_pid_of sched3 = 1"
  by (simp_all add: caller_pid_of_def sched_p3_def sched3_def proc0_def)

text \<open>
  Claim C9 says that the write system call returns \<open>count\<close> in all cases.  Process 3
  creates a window of 100 by 10 pixels, lower than one row of text, and writes a
  newline to its standard output.  The window has no row (\<open>rows = 10 / 16 = 0\<close>), so
  the cursor is past the last row after the byte and the window is scrolled: the length
  of the move, \<open>width * (height - 16) * 4\<close>, is \<open>-2400\<close> as an \<open>int\<close> and
  \<open>2^64 - 2400\<close> as the \<open>size_t\<close> that \<open>memmove\<close> receives.  The copy runs off the
  mapped memory, the kernel takes a data abort and halts in \<open>panic\<close>: the call does
  not return, whatever the font.  The same bytes written to descriptor 0, or written
  to descriptor 1 by process 1, which has no window, go to the console and the call
  returns \<open>count\<close>.
\<close>

theorem sys_write_short_window_faults:
  "\<exists>s1. compositor_create_window 300 100 100 10 [115, 0] 3 comp1 = Some (2, s1) \<and>
     width (windows s1 1) = 100 \<and> height (windows s1 1) = 10 \<and> w_pid (windows s1 1) = 3 \<and>
     caller_pid_of sched_p3 = 3 \<and> caller_pid_of sched3 = 1 \<and>
     scroll_bytes ((windows s1 1)\<lparr>cursor_y := 1\<rparr>) = - 2400 \<and>
     (\<forall>dc. sys_write dc sched_p3 1 (\<lambda>i. 10) 1 s1 = None) \<and>
     (\<forall>dc. \<exists>s2. sys_write dc sched_p3 0 (\<lambda>i. 10) 1 s1 = Some (1, s2) \<and>
        klog s2 = klog s1 @ [(RAW, Putc 10)]) \<and>
     (\<forall>dc. \<exists>s2. sys_write dc sched3 1 (\<lambda>i. 10) 1 s1 = Some (1, s2) \<and>
        klog s2 = klog s1 @ [(RAW, Putc 10)])"
proof -
  obtain s1 where c: "compositor_create_window 300 100 100 10 [115, 0] 3 comp1 = Some (2, s1)"
    and w: "windows s1 = (windows comp1)(1 := window0\<lparr>win_id := 2, w_x := 300, w_y := 100,
       width := 100, height := 10, z_order := 1, visible := 1, w_pid := 3,
       buffer := 0x40501060, bg_color := 0xFF17171A, title := [115], fg_color := 0xFFFFFFFF\<rparr>)"
    using comp1_short_window by blast
  have f: "width (windows s1 1) = 100" "height (windows s1 1) = 10" "w_pid (windows s1 1) = 3"
    by (simp_all add: w)
  have sb: "scroll_bytes ((windows s1 1)\<lparr>cursor_y := 1\<rparr>) = - 2400"
    by (simp add: scroll_bytes_def w s32_def)
  have own: "compositor_get_window_by_pid 3 s1 = (2, local_irq_enable (local_irq_disable s1))"
    by (simp add: compositor_get_window_by_pid_def Let_def slots_list local_irq_disable_def w
        comp1_def window1_def window0_def)
  have none: "compositor_get_window_by_pid 1 s1 = (- 1, local_irq_enable (local_irq_disable s1))"
    by (simp add: compositor_get_window_by_pid_def Let_def slots_list local_irq_disable_def w
        comp1_def window1_def window0_def)
  let ?s = "local_irq_enable (local_irq_disable s1)"
  have ws: "windows ?s = windows s1"
    by (simp add: local_irq_enable_def local_irq_disable_def)
  have slot: "write_slot ?s 2 = Some 1"
    by (simp add: write_slot_def slots_list ws w comp1_def window1_def window0_def)
  have g: "buffer (windows ?s (Suc 0)) = 0x40501060" "width (windows ?s (Suc 0)) = 100"
    "height (windows ?s (Suc 0)) = 10" "escape_state (windows ?s (Suc 0)) = 0"
    "cursor_x (windows ?s (Suc 0)) = 0" "cursor_y (windows ?s (Suc 0)) = 0"
    by (simp_all add: ws w window0_def)
  have lf: "window_putc dc 2 (Suc 0) 12 0 10 (local_irq_disable ?s) = None" for dc
    by (simp add: window_putc_def escape_normal_lf [unfolded LF_def] g window_wrap_def Let_def
        scroll_bytes_def s32_def)
  have ww: "compositor_window_write dc 2 [10] ?s = None" for dc
    by (simp add: compositor_window_write_def Let_def slot g c_div_def lf)
  have fault: "sys_write dc sched_p3 1 (\<lambda>i. 10) 1 s1 = None" for dc
    by (simp add: sys_write_def Let_def caller_pids own ww)
  have con0: "sys_write dc sched_p3 0 (\<lambda>i. 10) 1 s1 = Some (1, printk RAW (Putc 10) s1)" for dc
    by (simp add: sys_write_def Let_def console_write_def)
  have con1: "sys_write dc sched3 1 (\<lambda>i. 10) 1 s1 = Some (1, printk RAW (Putc 10) ?s)" for dc
    by (simp add: sys_write_def Let_def caller_pids none console_write_def)
  have k: "klog (printk RAW (Putc 10) s1) = klog s1 @ [(RAW, Putc 10)]"
    "klog (printk RAW (Putc 10) ?s) = klog s1 @ [(RAW, Putc 10)]"
    by (simp_all add: printk_def local_irq_enable_def local_irq_disable_def)
  show ?thesis
    using c f sb fault con0 con1 k caller_pids by (intro exI [of _ s1]) simp
qed

end
